theory Spec2Isabelle
  imports Complex_Main
begin

section \<open>The SaP exception type (sap/exception.h)\<close>

text \<open>
  \<^verbatim>\<open>sap::system_error\<close> carries a reason tag and a message. The enumerators have
  the numeric values -1 .. -5.
\<close>

datatype Reason =
  Zero_pivoting | Negative_DB_weight | Illegal_update | Illegal_solve | Matrix_singular

fun reason_value :: "Reason \<Rightarrow> int" where
  "reason_value Zero_pivoting = -1"
| "reason_value Negative_DB_weight = -2"
| "reason_value Illegal_update = -3"
| "reason_value Illegal_solve = -4"
| "reason_value Matrix_singular = -5"

datatype system_error = System_error Reason string

fun reason :: "system_error \<Rightarrow> Reason" where
  "reason (System_error r w) = r"

section \<open>The collaborators of the solver (sap/bicgstab2.h)\<close>

text \<open>
  \<^verbatim>\<open>bicgstabl\<close> is a template over the operator, the vector, the monitor and the
  preconditioner. None of these is defined in bicgstab2.h, so they are parameters of the
  model: one record holds what the function calls.

  \<^item> A vector of scalars \<open>'s\<close> is a list. The scalar type stands for \<^verbatim>\<open>ValueType\<close>:
    a linearly ordered type with the operations the function itself performs on scalars
    (negation, sum, difference, product, quotient, \<^verbatim>\<open>std::fabs\<close>, comparison, the
    constants 0, 1 and 1e-20). Nothing is assumed about what the arithmetic operations
    compute; the real numbers are one instance.
  \<^item> A call of a collaborator returns \<open>Inr\<close> its result, or \<open>Inl e\<close> when it throws
    the exception \<open>e\<close>. The function has no \<^verbatim>\<open>try\<close> block, so every call it makes can
    end it: those of the operator, the preconditioner and the vector primitives, the
    construction of a work vector, and the methods of the monitor.
  \<^item> The monitor is an object passed by reference: its state has type \<open>'m\<close>, a
    \<^verbatim>\<open>void\<close> method maps the state to the new state, and a \<^verbatim>\<open>bool\<close> method
    returns its answer together with the new state.
\<close>

type_synonym 's vec = "'s list"

record ('s, 'e, 'm) collab =
  multiply_A :: "'s vec \<Rightarrow> 'e + 's vec"              \<comment> \<open>\<^verbatim>\<open>cusp::multiply(A, x, y)\<close>: the new y\<close>
  multiply_P :: "'s vec \<Rightarrow> 'e + 's vec"              \<comment> \<open>\<^verbatim>\<open>cusp::multiply(P, x, y)\<close>: the new y\<close>
  axpby :: "'s vec \<Rightarrow> 's vec \<Rightarrow> 's \<Rightarrow> 's \<Rightarrow> 'e + 's vec"
                                                    \<comment> \<open>\<^verbatim>\<open>blas::axpby(x, y, z, a, b)\<close>: the new z\<close>
  axpy :: "'s vec \<Rightarrow> 's vec \<Rightarrow> 's \<Rightarrow> 'e + 's vec"   \<comment> \<open>\<^verbatim>\<open>blas::axpy(x, y, a)\<close>: the new y\<close>
  copy :: "'s vec \<Rightarrow> 'e + 's vec"                   \<comment> \<open>\<^verbatim>\<open>blas::copy(x, y)\<close>: the new y\<close>
  dotc :: "'s vec \<Rightarrow> 's vec \<Rightarrow> 'e + 's"
  nrm2 :: "'s vec \<Rightarrow> 'e + 's"
  zip_copy :: "'s vec \<Rightarrow> 's vec \<Rightarrow> 's vec \<Rightarrow> 'e + ('s vec \<times> 's vec \<times> 's vec)"
                                                    \<comment> \<open>\<^verbatim>\<open>thrust::copy\<close> of three zipped ranges\<close>
  allocate :: "nat \<Rightarrow> 'e + unit"
      \<comment> \<open>\<^verbatim>\<open>cusp::array1d<ValueType,MemorySpace> v(n)\<close>, \<^verbatim>\<open>v(n, 0)\<close>, \<^verbatim>\<open>v.resize(n, 0)\<close>\<close>
  allocate_arrays :: "nat \<Rightarrow> 'e + unit"
      \<comment> \<open>\<^verbatim>\<open>std::vector<cusp::array1d<ValueType,MemorySpace> > v(k)\<close>\<close>
  increment :: "rat \<Rightarrow> 'm \<Rightarrow> 'e + 'm"
  needCheckConvergence :: "'s \<Rightarrow> 'm \<Rightarrow> 'e + bool \<times> 'm"
  finished_norm :: "'s \<Rightarrow> 'm \<Rightarrow> 'e + bool \<times> 'm"    \<comment> \<open>\<^verbatim>\<open>monitor.finished(r_norm_act)\<close>\<close>
  finished :: "'m \<Rightarrow> 'e + bool \<times> 'm"                \<comment> \<open>\<^verbatim>\<open>monitor.finished()\<close>\<close>
  stop :: "int \<Rightarrow> string \<Rightarrow> 'm \<Rightarrow> 'e + 'm"
  incrementStag :: "'m \<Rightarrow> 'e + 'm"
  resetStag :: "'m \<Rightarrow> 'e + 'm"
  converged :: "'m \<Rightarrow> 'e + bool \<times> 'm"
  updateResidual :: "'s \<Rightarrow> 'm \<Rightarrow> 'e + 'm"

text \<open>Sequencing of calls that may throw: the first exception ends the computation.\<close>

definition bind_exn :: "'e + 'a \<Rightarrow> ('a \<Rightarrow> 'e + 'b) \<Rightarrow> 'e + 'b" where
  "bind_exn m f = (case m of Inl e \<Rightarrow> Inl e | Inr a \<Rightarrow> f a)"

text \<open>A \<^verbatim>\<open>for\<close> loop over the indices \<open>js\<close>, without and with \<^verbatim>\<open>break\<close>. A body of
  the second kind returns \<open>True\<close> when it leaves the loop.\<close>

fun for_each :: "(nat \<Rightarrow> 'a \<Rightarrow> 'e + 'a) \<Rightarrow> nat list \<Rightarrow> 'a \<Rightarrow> 'e + 'a" where
  "for_each body [] st = Inr st"
| "for_each body (j # js) st = bind_exn (body j st) (for_each body js)"

fun for_break :: "(nat \<Rightarrow> 'a \<Rightarrow> 'e + bool \<times> 'a) \<Rightarrow> nat list \<Rightarrow> 'a \<Rightarrow> 'e + 'a" where
  "for_break body [] st = Inr st"
| "for_break body (j # js) st =
     (case body j st of
        Inl e \<Rightarrow> Inl e
      | Inr (brk, st') \<Rightarrow> if brk then Inr st' else for_break body js st')"

text \<open>Sequencing after a block that may \<^verbatim>\<open>break\<close>: a block that has left the loop
  (\<open>True\<close>) ends the sequence, otherwise the rest runs on its state.\<close>

definition unless_break ::
  "'e + bool \<times> 'a \<Rightarrow> ('a \<Rightarrow> 'e + bool \<times> 'a) \<Rightarrow> 'e + bool \<times> 'a" where
  "unless_break r f =
     (case r of Inl e \<Rightarrow> Inl e | Inr (brk, st) \<Rightarrow> if brk then Inr (True, st) else f st)"

section \<open>The working state of one call\<close>

text \<open>
  The local variables of \<^verbatim>\<open>bicgstabl\<close> (lines 42-89), with the in/out argument
  \<^verbatim>\<open>x\<close> and the monitor. The vectors \<^verbatim>\<open>r\<close>, \<^verbatim>\<open>u\<close>, \<^verbatim>\<open>x\<close> are the fields
  \<open>r_vec\<close>, \<open>u_vec\<close>, \<open>x_vec\<close>. The arrays \<^verbatim>\<open>rr\<close>, \<^verbatim>\<open>uu\<close> (size L+1),
  \<^verbatim>\<open>tao\<close>, \<^verbatim>\<open>gamma\<close>, \<^verbatim>\<open>gamma_prime\<close>, \<^verbatim>\<open>gamma_primeprime\<close>, \<^verbatim>\<open>sigma\<close> are
  functions of the index: every index the function uses is within 0..L (or 0..L+1 for
  the scalar arrays), since j < L and i \<le> j in the loops, so no access is out of range.
\<close>

record ('s, 'm) state =
  rho0 :: 's
  alpha :: 's
  omega :: 's
  rho1 :: 's
  r0 :: "'s vec"
  r_vec :: "'s vec"
  u_vec :: "'s vec"
  xx :: "'s vec"
  Pv :: "'s vec"
  rr :: "nat \<Rightarrow> 's vec"
  uu :: "nat \<Rightarrow> 's vec"
  tao :: "nat \<Rightarrow> nat \<Rightarrow> 's"
  gamma :: "nat \<Rightarrow> 's"
  gamma_prime :: "nat \<Rightarrow> 's"
  gamma_primeprime :: "nat \<Rightarrow> 's"
  sigma :: "nat \<Rightarrow> 's"
  r_norm_min :: 's
  r_norm :: 's
  r_norm_act :: 's
  x_min :: "'s vec"
  x_vec :: "'s vec"
  mon :: 'm

text \<open>\<^verbatim>\<open>const ValueType eps = 1e-20;\<close> (line 44)\<close>

definition eps :: "'s::{linorder, zero, minus, uminus, inverse, abs, numeral, power}" where
  "eps = 1 / 10 ^ 20"

text \<open>\<^verbatim>\<open>if (monitor.finished()) break;\<close> (lines 171, 176, 193, 252, 297, 302): the
  monitor's answer, and the state with the monitor as the call has left it.\<close>

definition ask_finished ::
  "('s, 'e, 'm) collab \<Rightarrow> ('s, 'm) state \<Rightarrow> 'e + bool \<times> ('s, 'm) state" where
  "ask_finished c st = bind_exn (finished c (mon st)) (\<lambda>(f, m). Inr (f, st\<lparr>mon := m\<rparr>))"

text \<open>Lines 149-150, 230-231, 275-276: the two work vectors \<^verbatim>\<open>Pxx(n)\<close> and
  \<^verbatim>\<open>APxx(n)\<close> of a recomputation.\<close>

definition allocate_pair :: "('s, 'e, 'm) collab \<Rightarrow> nat \<Rightarrow> 'e + unit" where
  "allocate_pair c n = bind_exn (allocate c n) (\<lambda>_. allocate c n)"

section \<open>Initialisation (lines 42-89)\<close>

text \<open>
  The scalar arrays and \<^verbatim>\<open>rho1\<close> are declared without an initialiser; the model
  starts them at 0. The vectors built with \<^verbatim>\<open>array1d(n)\<close> are written before they
  are read. The constructions are kept in the order of the source, since each of them can
  throw: five work vectors (lines 51-55), the two arrays of vectors (lines 57-58), their
  L+1 pairs of entries (lines 60-63) and, after the first norm, \<^verbatim>\<open>x_min\<close> (line 89).
\<close>

definition allocate_workspace :: "('s, 'e, 'm) collab \<Rightarrow> nat \<Rightarrow> nat \<Rightarrow> 'e + unit" where
  "allocate_workspace c L n =
     bind_exn (allocate c n) (\<lambda>_.
     bind_exn (allocate c n) (\<lambda>_.
     bind_exn (allocate c n) (\<lambda>_.
     bind_exn (allocate c n) (\<lambda>_.
     bind_exn (allocate c n) (\<lambda>_.
     bind_exn (allocate_arrays c (L + 1)) (\<lambda>_.
     bind_exn (allocate_arrays c (L + 1)) (\<lambda>_.
     for_each (\<lambda>k _. allocate_pair c n) [0..<L + 1] ())))))))"

definition init ::
  "('s::{linorder, zero, minus, uminus, inverse, abs, numeral, power}, 'e, 'm) collab \<Rightarrow> nat \<Rightarrow> 's vec \<Rightarrow> 's vec \<Rightarrow> 'm \<Rightarrow> 'e + ('s, 'm) state" where
  "init c L x b monitor =
     (let n = length b; zeros = replicate n 0 in
      bind_exn (allocate_workspace c L n) (\<lambda>_.
      bind_exn (multiply_A c x) (\<lambda>Ax.
      bind_exn (axpby c b Ax 1 (- 1)) (\<lambda>r0v.
      bind_exn (copy c r0v) (\<lambda>rv.
      bind_exn (zip_copy c zeros x rv) (\<lambda>(uu0, xxv, rr0).
      bind_exn (nrm2 c rv) (\<lambda>nr.
      bind_exn (allocate c n) (\<lambda>_.
      Inr \<lparr> rho0 = 1, alpha = 0, omega = 1, rho1 = 0,
            r0 = r0v, r_vec = rv, u_vec = zeros, xx = xxv, Pv = zeros,
            rr = (\<lambda>k. zeros)(0 := rr0), uu = (\<lambda>k. zeros)(0 := uu0),
            tao = (\<lambda>i j. 0), gamma = (\<lambda>j. 0), gamma_prime = (\<lambda>j. 0),
            gamma_primeprime = (\<lambda>j. 0), sigma = (\<lambda>j. 0),
            r_norm_min = nr, r_norm = nr, r_norm_act = nr,
            x_min = zeros, x_vec = x, mon = monitor \<rparr>))))))))"

section \<open>The BiCG sub-phase (lines 93-178)\<close>

text \<open>Lines 93-95: \<^verbatim>\<open>rho0 = -omega * rho0; monitor.increment(0.25f);\<close>\<close>

definition begin_outer ::
  "('s::{linorder, zero, minus, uminus, inverse, abs, numeral, power}, 'e, 'm) collab \<Rightarrow> ('s, 'm) state \<Rightarrow> 'e + ('s, 'm) state" where
  "begin_outer c st =
     (let st1 = st\<lparr>rho0 := - omega st * rho0 st\<rparr> in
      bind_exn (increment c (1 / 4) (mon st1)) (\<lambda>m. Inr (st1\<lparr>mon := m\<rparr>)))"

text \<open>Line 111: \<^verbatim>\<open>axpby(rr[i], uu[i], uu[i], 1, -beta)\<close>\<close>

definition bicg_uu_update ::
  "('s::{linorder, zero, minus, uminus, inverse, abs, numeral, power}, 'e, 'm) collab \<Rightarrow> 's \<Rightarrow> nat \<Rightarrow> ('s, 'm) state \<Rightarrow> 'e + ('s, 'm) state" where
  "bicg_uu_update c beta i st =
     bind_exn (axpby c (rr st i) (uu st i) 1 (- beta)) (\<lambda>v.
     Inr (st\<lparr>uu := (uu st)(i := v)\<rparr>))"

text \<open>Line 130: \<^verbatim>\<open>axpy(uu[i+1], rr[i], -alpha)\<close>\<close>

definition bicg_rr_update ::
  "('s::{linorder, zero, minus, uminus, inverse, abs, numeral, power}, 'e, 'm) collab \<Rightarrow> nat \<Rightarrow> ('s, 'm) state \<Rightarrow> 'e + ('s, 'm) state" where
  "bicg_rr_update c i st =
     bind_exn (axpy c (uu st (i + 1)) (rr st i) (- alpha st)) (\<lambda>v.
     Inr (st\<lparr>rr := (rr st)(i := v)\<rparr>))"

text \<open>Lines 106-116: beta, the new rho0, the directions uu(0..j) and uu(j+1).\<close>

definition bicg_direction ::
  "('s::{linorder, zero, minus, uminus, inverse, abs, numeral, power}, 'e, 'm) collab \<Rightarrow> nat \<Rightarrow> ('s, 'm) state \<Rightarrow> 'e + ('s, 'm) state" where
  "bicg_direction c j st =
     (let beta = alpha st * rho1 st / rho0 st;
          st1 = st\<lparr>rho0 := rho1 st\<rparr> in
      bind_exn (for_each (bicg_uu_update c beta) [0..<j + 1] st1) (\<lambda>st2.
      bind_exn (multiply_P c (uu st2 j)) (\<lambda>pv.
      bind_exn (multiply_A c pv) (\<lambda>w.
      Inr (st2\<lparr>Pv := pv, uu := (uu st2)(j + 1 := w)\<rparr>)))))"

text \<open>Lines 126-137: alpha, the residuals rr(0..j), the recurrence norm and rr(j+1).\<close>

definition bicg_residual ::
  "('s::{linorder, zero, minus, uminus, inverse, abs, numeral, power}, 'e, 'm) collab \<Rightarrow> nat \<Rightarrow> 's \<Rightarrow> ('s, 'm) state \<Rightarrow> 'e + ('s, 'm) state" where
  "bicg_residual c j gam st =
     (let st1 = st\<lparr>alpha := rho0 st / gam\<rparr> in
      bind_exn (for_each (bicg_rr_update c) [0..<j + 1] st1) (\<lambda>st2.
      bind_exn (nrm2 c (rr st2 0)) (\<lambda>nr.
      bind_exn (multiply_P c (rr st2 j)) (\<lambda>pv.
      bind_exn (multiply_A c pv) (\<lambda>w.
      Inr (st2\<lparr>r_norm := nr, r_norm_act := nr, Pv := pv, rr := (rr st2)(j + 1 := w)\<rparr>))))))"

text \<open>Lines 139-143: the stagnation test of the BiCG sub-phase.\<close>

definition stag_bicg ::
  "('s::{linorder, zero, minus, uminus, inverse, abs, numeral, power}, 'e, 'm) collab \<Rightarrow> ('s, 'm) state \<Rightarrow> 'e + ('s, 'm) state" where
  "stag_bicg c st =
     bind_exn (nrm2 c (uu st 0)) (\<lambda>nu.
     bind_exn (nrm2 c (xx st)) (\<lambda>nx.
     bind_exn (if \<bar>alpha st\<bar> * nu < eps * nx
               then incrementStag c (mon st) else resetStag c (mon st)) (\<lambda>m.
     Inr (st\<lparr>mon := m\<rparr>))))"

text \<open>Lines 148-163: the residual recomputation of the BiCG sub-phase. The result is
  \<open>True\<close> when \<^verbatim>\<open>monitor.finished(r_norm_act)\<close> answered true (the \<^verbatim>\<open>break\<close>).\<close>

definition checkpoint_bicg ::
  "('s::{linorder, zero, minus, uminus, inverse, abs, numeral, power}, 'e, 'm) collab \<Rightarrow> 's vec \<Rightarrow> ('s, 'm) state \<Rightarrow> 'e + bool \<times> ('s, 'm) state" where
  "checkpoint_bicg c b st =
     bind_exn (needCheckConvergence c (r_norm st) (mon st)) (\<lambda>(chk, m1).
     if chk then
       bind_exn (allocate_pair c (length b)) (\<lambda>_.
       bind_exn (multiply_P c (xx st)) (\<lambda>Pxx.
       bind_exn (multiply_A c Pxx) (\<lambda>APxx.
       bind_exn (axpby c b APxx 1 (- 1)) (\<lambda>res.
       let st1 = st\<lparr>rr := (rr st)(0 := res)\<rparr> in
       bind_exn (nrm2 c (rr st1 0)) (\<lambda>nr.
       bind_exn (finished_norm c nr m1) (\<lambda>(fin, m2).
       Inr (fin, st1\<lparr>r_norm_act := nr, mon := m2\<rparr>)))))))
     else Inr (False, st\<lparr>mon := m1\<rparr>))"

text \<open>Lines 165-169: the best iterate seen so far, in the BiCG sub-phase.\<close>

definition update_min_bicg ::
  "('s::{linorder, zero, minus, uminus, inverse, abs, numeral, power}, 'e, 'm) collab \<Rightarrow> ('s, 'm) state \<Rightarrow> 'e + ('s, 'm) state" where
  "update_min_bicg c st =
     (if r_norm_act st < r_norm_min st then
        bind_exn (copy c (xx st)) (\<lambda>v.
        Inr (st\<lparr>r_norm_min := r_norm_act st, x_min := v\<rparr>))
      else Inr st)"

text \<open>Lines 133-173, after alpha is known: the second half of one lookahead step.\<close>

definition bicg_advance ::
  "('s::{linorder, zero, minus, uminus, inverse, abs, numeral, power}, 'e, 'm) collab \<Rightarrow> 's vec \<Rightarrow> nat \<Rightarrow> 's \<Rightarrow> ('s, 'm) state
     \<Rightarrow> 'e + bool \<times> ('s, 'm) state" where
  "bicg_advance c b j gam st =
     bind_exn (bicg_residual c j gam st) (\<lambda>st1.
     bind_exn (stag_bicg c st1) (\<lambda>st2.
     bind_exn (axpy c (uu st2 0) (xx st2) (alpha st2)) (\<lambda>xv.
     unless_break (checkpoint_bicg c b (st2\<lparr>xx := xv\<rparr>)) (\<lambda>st3.
     bind_exn (update_min_bicg c st3) (ask_finished c)))))"

text \<open>Lines 106-173: what one lookahead step does once rho0 is known to be nonzero.\<close>

definition bicg_rest ::
  "('s::{linorder, zero, minus, uminus, inverse, abs, numeral, power}, 'e, 'm) collab \<Rightarrow> 's vec \<Rightarrow> nat \<Rightarrow> ('s, 'm) state
     \<Rightarrow> 'e + bool \<times> ('s, 'm) state" where
  "bicg_rest c b j st =
     bind_exn (bicg_direction c j st) (\<lambda>st1.
     bind_exn (dotc c (uu st1 (j + 1)) (r0 st1)) (\<lambda>gam.
     if gam = 0 then
       bind_exn (stop c (- 11) ''gamma is zero'' (mon st1)) (\<lambda>m. Inr (True, st1\<lparr>mon := m\<rparr>))
     else bicg_advance c b j gam st1))"

text \<open>Lines 98-173: the body of the lookahead loop. \<open>True\<close> is a \<^verbatim>\<open>break\<close>.\<close>

definition bicg_step ::
  "('s::{linorder, zero, minus, uminus, inverse, abs, numeral, power}, 'e, 'm) collab \<Rightarrow> 's vec \<Rightarrow> nat \<Rightarrow> ('s, 'm) state
     \<Rightarrow> 'e + bool \<times> ('s, 'm) state" where
  "bicg_step c b j st =
     bind_exn (dotc c (rr st j) (r0 st)) (\<lambda>rho1v.
     let st1 = st\<lparr>rho1 := rho1v\<rparr> in
     if rho0 st1 = 0 then
       bind_exn (stop c (- 10) ''rho0 is zero'' (mon st1)) (\<lambda>m. Inr (True, st1\<lparr>mon := m\<rparr>))
     else bicg_rest c b j st1)"

text \<open>Lines 93-178: the sub-phase, and the test that leaves the outer loop (\<open>True\<close>).\<close>

definition bicg_phase ::
  "('s::{linorder, zero, minus, uminus, inverse, abs, numeral, power}, 'e, 'm) collab \<Rightarrow> nat \<Rightarrow> 's vec \<Rightarrow> ('s, 'm) state
     \<Rightarrow> 'e + bool \<times> ('s, 'm) state" where
  "bicg_phase c L b st =
     bind_exn (begin_outer c st) (\<lambda>st0.
     bind_exn (for_break (bicg_step c b) [0..<L] st0) (ask_finished c))"

section \<open>The minimal-residual sub-phase (lines 181-313)\<close>

text \<open>Lines 183-184: \<^verbatim>\<open>tao[i][j] = dotc(rr[j], rr[i]) / sigma[i]; axpy(rr[i], rr[j], -tao[i][j]);\<close>\<close>

definition mgs_inner ::
  "('s::{linorder, zero, minus, uminus, inverse, abs, numeral, power}, 'e, 'm) collab \<Rightarrow> nat \<Rightarrow> nat \<Rightarrow> ('s, 'm) state \<Rightarrow> 'e + ('s, 'm) state" where
  "mgs_inner c j i st =
     bind_exn (dotc c (rr st j) (rr st i)) (\<lambda>d.
     let st1 = st\<lparr>tao := (tao st)(i := (tao st i)(j := d / sigma st i))\<rparr> in
     bind_exn (axpy c (rr st1 i) (rr st1 j) (- tao st1 i j)) (\<lambda>v.
     Inr (st1\<lparr>rr := (rr st1)(j := v)\<rparr>)))"

text \<open>Lines 182-191: the body of the orthogonalisation loop. \<open>True\<close> is the
  \<^verbatim>\<open>break\<close>.\<close>

definition mgs_step ::
  "('s::{linorder, zero, minus, uminus, inverse, abs, numeral, power}, 'e, 'm) collab \<Rightarrow> nat \<Rightarrow> ('s, 'm) state \<Rightarrow> 'e + bool \<times> ('s, 'm) state" where
  "mgs_step c j st =
     bind_exn (for_each (mgs_inner c j) [1..<j] st) (\<lambda>st1.
     bind_exn (dotc c (rr st1 j) (rr st1 j)) (\<lambda>sg.
     let st2 = st1\<lparr>sigma := (sigma st1)(j := sg)\<rparr> in
     if sigma st2 j = 0 then
       bind_exn (stop c (- 12) ''a sigma value is zero'' (mon st2)) (\<lambda>m.
       Inr (True, st2\<lparr>mon := m\<rparr>))
     else
       bind_exn (dotc c (rr st2 j) (rr st2 0)) (\<lambda>d.
       Inr (False, st2\<lparr>gamma_prime := (gamma_prime st2)(j := d / sigma st2 j)\<rparr>))))"

text \<open>Lines 181-195: the loop, and the test that leaves the outer loop.\<close>

definition mgs_phase ::
  "('s::{linorder, zero, minus, uminus, inverse, abs, numeral, power}, 'e, 'm) collab \<Rightarrow> nat \<Rightarrow> ('s, 'm) state \<Rightarrow> 'e + bool \<times> ('s, 'm) state" where
  "mgs_phase c L st =
     bind_exn (for_break (mgs_step c) [1..<L + 1] st) (ask_finished c)"

text \<open>Lines 201-203: \<^verbatim>\<open>gamma[j] = gamma_prime[j]; for i = j+1..L: gamma[j] -= tao[j][i] * gamma[i];\<close>\<close>

definition gamma_back :: "nat \<Rightarrow> nat \<Rightarrow> ('s::{linorder, zero, minus, uminus, inverse, abs, numeral, power}, 'm) state \<Rightarrow> ('s, 'm) state" where
  "gamma_back L j st =
     fold (\<lambda>i s. s\<lparr>gamma := (gamma s)(j := gamma s j - tao s j i * gamma s i)\<rparr>)
          [j + 1..<L + 1]
          (st\<lparr>gamma := (gamma st)(j := gamma_prime st j)\<rparr>)"

text \<open>Lines 207-209: \<^verbatim>\<open>gamma_primeprime[j] = gamma[j+1]; for i = j+1..L-1:
  gamma_primeprime[j] += tao[j][i] * gamma[i+1];\<close>\<close>

definition gamma_forward :: "nat \<Rightarrow> nat \<Rightarrow> ('s::{linorder, zero, minus, uminus, inverse, abs, numeral, power}, 'm) state \<Rightarrow> ('s, 'm) state" where
  "gamma_forward L j st =
     fold (\<lambda>i s. s\<lparr>gamma_primeprime :=
                     (gamma_primeprime s)(j := gamma_primeprime s j + tao s j i * gamma s (i + 1))\<rparr>)
          [j + 1..<L]
          (st\<lparr>gamma_primeprime := (gamma_primeprime st)(j := gamma st (j + 1))\<rparr>)"

text \<open>Lines 197-210: gamma(L), omega, then j = L-1 down to 1, then j = 1 up to L-1.\<close>

definition mr_coefficients :: "nat \<Rightarrow> ('s::{linorder, zero, minus, uminus, inverse, abs, numeral, power}, 'm) state \<Rightarrow> ('s, 'm) state" where
  "mr_coefficients L st =
     (let st1 = st\<lparr>gamma := (gamma st)(L := gamma_prime st L)\<rparr>;
          st2 = st1\<lparr>omega := gamma st1 L\<rparr>;
          st3 = fold (gamma_back L) (rev [1..<L]) st2
      in fold (gamma_forward L) [1..<L] st3)"

text \<open>Lines 212-216: the stagnation test on gamma(1).\<close>

definition stag_mr ::
  "('s::{linorder, zero, minus, uminus, inverse, abs, numeral, power}, 'e, 'm) collab \<Rightarrow> ('s, 'm) state \<Rightarrow> 'e + ('s, 'm) state" where
  "stag_mr c st =
     bind_exn (nrm2 c (rr st 0)) (\<lambda>nr.
     bind_exn (nrm2 c (xx st)) (\<lambda>nx.
     bind_exn (if \<bar>gamma st 1\<bar> * nr < eps * nx
               then incrementStag c (mon st) else resetStag c (mon st)) (\<lambda>m.
     Inr (st\<lparr>mon := m\<rparr>))))"

text \<open>Lines 221-227: the three updates, the recurrence norm, the progress count.\<close>

definition mr_combine ::
  "('s::{linorder, zero, minus, uminus, inverse, abs, numeral, power}, 'e, 'm) collab \<Rightarrow> nat \<Rightarrow> ('s, 'm) state \<Rightarrow> 'e + ('s, 'm) state" where
  "mr_combine c L st =
     bind_exn (axpy c (rr st 0) (xx st) (gamma st 1)) (\<lambda>xv.
     let st1 = st\<lparr>xx := xv\<rparr> in
     bind_exn (axpy c (rr st1 L) (rr st1 0) (- gamma_prime st1 L)) (\<lambda>rv.
     let st2 = st1\<lparr>rr := (rr st1)(0 := rv)\<rparr> in
     bind_exn (axpy c (uu st2 L) (uu st2 0) (- gamma st2 L)) (\<lambda>uv.
     let st3 = st2\<lparr>uu := (uu st2)(0 := uv)\<rparr> in
     bind_exn (nrm2 c (rr st3 0)) (\<lambda>nr.
     bind_exn (increment c (1 / 4) (mon st3)) (\<lambda>m.
     Inr (st3\<lparr>r_norm := nr, r_norm_act := nr, mon := m\<rparr>))))))"

text \<open>Lines 229-244: the residual recomputation after the combination. \<open>True\<close> is the
  \<^verbatim>\<open>break\<close>, which here leaves the outer loop.\<close>

definition checkpoint_mr ::
  "('s::{linorder, zero, minus, uminus, inverse, abs, numeral, power}, 'e, 'm) collab \<Rightarrow> 's vec \<Rightarrow> ('s, 'm) state \<Rightarrow> 'e + bool \<times> ('s, 'm) state" where
  "checkpoint_mr c b st =
     bind_exn (needCheckConvergence c (r_norm st) (mon st)) (\<lambda>(chk, m1).
     if chk then
       bind_exn (allocate_pair c (length b)) (\<lambda>_.
       bind_exn (multiply_P c (xx st)) (\<lambda>Pxx.
       bind_exn (multiply_A c Pxx) (\<lambda>APxx.
       bind_exn (axpby c b APxx 1 (- 1)) (\<lambda>res.
       let st1 = st\<lparr>rr := (rr st)(0 := res)\<rparr> in
       bind_exn (nrm2 c (rr st1 0)) (\<lambda>nr.
       bind_exn (finished_norm c nr m1) (\<lambda>(fin, m2).
       Inr (fin, st1\<lparr>r_norm_act := nr, mon := m2\<rparr>)))))))
     else Inr (False, st\<lparr>mon := m1\<rparr>))"

text \<open>Lines 246-250: the best iterate seen so far, after the combination.\<close>

definition update_min_mr ::
  "('s::{linorder, zero, minus, uminus, inverse, abs, numeral, power}, 'e, 'm) collab \<Rightarrow> ('s, 'm) state \<Rightarrow> 'e + ('s, 'm) state" where
  "update_min_mr c st =
     (if r_norm_act st < r_norm_min st then
        bind_exn (copy c (xx st)) (\<lambda>v.
        Inr (st\<lparr>r_norm_min := r_norm_act st, x_min := v\<rparr>))
      else Inr st)"

text \<open>Lines 197-254: from the coefficients to the test that leaves the outer loop.\<close>

definition mr_phase ::
  "('s::{linorder, zero, minus, uminus, inverse, abs, numeral, power}, 'e, 'm) collab \<Rightarrow> nat \<Rightarrow> 's vec \<Rightarrow> ('s, 'm) state
     \<Rightarrow> 'e + bool \<times> ('s, 'm) state" where
  "mr_phase c L b st =
     bind_exn (stag_mr c (mr_coefficients L st)) (\<lambda>st1.
     bind_exn (mr_combine c L st1) (\<lambda>st2.
     unless_break (checkpoint_mr c b st2) (\<lambda>st3.
     bind_exn (update_min_mr c st3) (ask_finished c))))"

text \<open>Lines 264-268: the stagnation test on gamma''(j).\<close>

definition stag_mr_j ::
  "('s::{linorder, zero, minus, uminus, inverse, abs, numeral, power}, 'e, 'm) collab \<Rightarrow> nat \<Rightarrow> ('s, 'm) state \<Rightarrow> 'e + ('s, 'm) state" where
  "stag_mr_j c j st =
     bind_exn (nrm2 c (rr st j)) (\<lambda>nr.
     bind_exn (nrm2 c (xx st)) (\<lambda>nx.
     bind_exn (if \<bar>gamma_primeprime st j\<bar> * nr < eps * nx
               then incrementStag c (mon st) else resetStag c (mon st)) (\<lambda>m.
     Inr (st\<lparr>mon := m\<rparr>))))"

text \<open>Lines 274-289: the residual recomputation inside the last loop.\<close>

definition checkpoint_mr_j ::
  "('s::{linorder, zero, minus, uminus, inverse, abs, numeral, power}, 'e, 'm) collab \<Rightarrow> 's vec \<Rightarrow> ('s, 'm) state \<Rightarrow> 'e + bool \<times> ('s, 'm) state" where
  "checkpoint_mr_j c b st =
     bind_exn (needCheckConvergence c (r_norm st) (mon st)) (\<lambda>(chk, m1).
     if chk then
       bind_exn (allocate_pair c (length b)) (\<lambda>_.
       bind_exn (multiply_P c (xx st)) (\<lambda>Pxx.
       bind_exn (multiply_A c Pxx) (\<lambda>APxx.
       bind_exn (axpby c b APxx 1 (- 1)) (\<lambda>res.
       let st1 = st\<lparr>rr := (rr st)(0 := res)\<rparr> in
       bind_exn (nrm2 c (rr st1 0)) (\<lambda>nr.
       bind_exn (finished_norm c nr m1) (\<lambda>(fin, m2).
       Inr (fin, st1\<lparr>r_norm_act := nr, mon := m2\<rparr>)))))))
     else Inr (False, st\<lparr>mon := m1\<rparr>))"

text \<open>Lines 291-295: the best iterate seen so far, inside the last loop.\<close>

definition update_min_mr_j ::
  "('s::{linorder, zero, minus, uminus, inverse, abs, numeral, power}, 'e, 'm) collab \<Rightarrow> ('s, 'm) state \<Rightarrow> 'e + ('s, 'm) state" where
  "update_min_mr_j c st =
     (if r_norm_act st < r_norm_min st then
        bind_exn (copy c (xx st)) (\<lambda>v.
        Inr (st\<lparr>r_norm_min := r_norm_act st, x_min := v\<rparr>))
      else Inr st)"

text \<open>Lines 262-299: the body of the last loop. \<open>True\<close> is a \<^verbatim>\<open>break\<close>.\<close>

definition mr_step ::
  "('s::{linorder, zero, minus, uminus, inverse, abs, numeral, power}, 'e, 'm) collab \<Rightarrow> 's vec \<Rightarrow> nat \<Rightarrow> ('s, 'm) state
     \<Rightarrow> 'e + bool \<times> ('s, 'm) state" where
  "mr_step c b j st =
     bind_exn (axpy c (uu st j) (uu st 0) (- gamma st j)) (\<lambda>uv.
     bind_exn (stag_mr_j c j (st\<lparr>uu := (uu st)(0 := uv)\<rparr>)) (\<lambda>st1.
     bind_exn (axpy c (rr st1 j) (xx st1) (gamma_primeprime st1 j)) (\<lambda>xv.
     let st2 = st1\<lparr>xx := xv\<rparr> in
     bind_exn (axpy c (rr st2 j) (rr st2 0) (- gamma_prime st2 j)) (\<lambda>rv.
     let st3 = st2\<lparr>rr := (rr st2)(0 := rv)\<rparr> in
     bind_exn (nrm2 c (rr st3 0)) (\<lambda>nr.
     unless_break (checkpoint_mr_j c b (st3\<lparr>r_norm := nr, r_norm_act := nr\<rparr>)) (\<lambda>st4.
     bind_exn (update_min_mr_j c st4) (ask_finished c)))))))"

text \<open>Lines 256-313: the progress count, the last loop, the test that leaves the outer
  loop, the copy into \<^verbatim>\<open>(u, x, r)\<close> and the progress count. \<open>True\<close> leaves the outer
  loop.\<close>

definition snapshot_phase ::
  "('s::{linorder, zero, minus, uminus, inverse, abs, numeral, power}, 'e, 'm) collab \<Rightarrow> nat \<Rightarrow> 's vec \<Rightarrow> ('s, 'm) state
     \<Rightarrow> 'e + bool \<times> ('s, 'm) state" where
  "snapshot_phase c L b st =
     bind_exn (increment c (1 / 4) (mon st)) (\<lambda>m.
     bind_exn (for_break (mr_step c b) [1..<L] (st\<lparr>mon := m\<rparr>)) (\<lambda>st1.
     unless_break (ask_finished c st1) (\<lambda>st2.
     bind_exn (zip_copy c (uu st2 0) (xx st2) (rr st2 0)) (\<lambda>(uv, xv, rv).
     bind_exn (increment c (1 / 4) (mon st2)) (\<lambda>m2.
     Inr (False, st2\<lparr>u_vec := uv, x_vec := xv, r_vec := rv, mon := m2\<rparr>))))))"

section \<open>The outer loop (lines 91-314)\<close>

text \<open>A phase that has left the outer loop ends the body; otherwise the next phase
  runs.\<close>

definition outer_body ::
  "('s::{linorder, zero, minus, uminus, inverse, abs, numeral, power}, 'e, 'm) collab \<Rightarrow> nat \<Rightarrow> 's vec \<Rightarrow> ('s, 'm) state
     \<Rightarrow> 'e + bool \<times> ('s, 'm) state" where
  "outer_body c L b st =
     unless_break (unless_break (unless_break (bicg_phase c L b st) (mgs_phase c L))
                                (mr_phase c L b))
                  (snapshot_phase c L b)"

text \<open>
  \<^verbatim>\<open>while(true)\<close> has no bound of its own: the loop ends when the monitor says so. The
  model counts the iterations it may still start: \<open>None\<close> says that the loop has not
  ended within that number.
\<close>

fun while_loop ::
  "('s::{linorder, zero, minus, uminus, inverse, abs, numeral, power}, 'e, 'm) collab \<Rightarrow> nat \<Rightarrow> 's vec \<Rightarrow> nat \<Rightarrow> ('s, 'm) state
     \<Rightarrow> ('e + ('s, 'm) state) option" where
  "while_loop c L b 0 st = None"
| "while_loop c L b (Suc k) st =
     (case outer_body c L b st of
        Inl e \<Rightarrow> Some (Inl e)
      | Inr (ex, st') \<Rightarrow> if ex then Some (Inr st') else while_loop c L b k st')"

section \<open>The returned iterate (lines 316-353)\<close>

text \<open>Lines 320-325: the six work vectors of the branch that compares the residuals.\<close>

definition allocate_six :: "('s, 'e, 'm) collab \<Rightarrow> nat \<Rightarrow> 'e + unit" where
  "allocate_six c n =
     bind_exn (allocate_pair c n) (\<lambda>_. bind_exn (allocate_pair c n) (\<lambda>_. allocate_pair c n))"

definition finalize ::
  "('s::{linorder, zero, minus, uminus, inverse, abs, numeral, power}, 'e, 'm) collab \<Rightarrow> 's vec \<Rightarrow> ('s, 'm) state \<Rightarrow> 'e + ('s, 'm) state" where
  "finalize c b st =
     bind_exn (converged c (mon st)) (\<lambda>(cv, m).
     if cv then
       bind_exn (multiply_P c (xx st)) (\<lambda>xv. Inr (st\<lparr>x_vec := xv, mon := m\<rparr>))
     else
       bind_exn (allocate_six c (length b)) (\<lambda>_.
       bind_exn (multiply_P c (xx st)) (\<lambda>Pxx.
       bind_exn (multiply_A c Pxx) (\<lambda>APxx.
       bind_exn (axpby c b APxx 1 (- 1)) (\<lambda>r_comp.
       bind_exn (multiply_P c (x_min st)) (\<lambda>Pxmin.
       bind_exn (multiply_A c Pxmin) (\<lambda>APxmin.
       bind_exn (axpby c b APxmin 1 (- 1)) (\<lambda>r_comp_min.
       bind_exn (nrm2 c r_comp) (\<lambda>r_comp_norm.
       bind_exn (nrm2 c r_comp_min) (\<lambda>r_comp_min_norm.
       if r_comp_norm < r_comp_min_norm then
         bind_exn (copy c Pxx) (\<lambda>xv.
         bind_exn (updateResidual c r_comp_norm m) (\<lambda>m'.
         Inr (st\<lparr>x_vec := xv, mon := m'\<rparr>)))
       else
         bind_exn (copy c Pxmin) (\<lambda>xv.
         bind_exn (updateResidual c r_comp_min_norm m) (\<lambda>m'.
         Inr (st\<lparr>x_vec := xv, mon := m'\<rparr>)))))))))))))"

section \<open>The solver and its two instances (lines 31-376)\<close>

text \<open>
  The result is the state at the return: the caller sees \<open>x_vec\<close> and \<open>mon\<close>.
  \<open>None\<close>: the loop has not ended within \<open>fuel\<close> iterations. \<open>Some (Inl e)\<close>: the
  exception \<open>e\<close> has left the call.
\<close>

definition bicgstabl ::
  "('s::{linorder, zero, minus, uminus, inverse, abs, numeral, power}, 'e, 'm) collab \<Rightarrow> nat \<Rightarrow> nat \<Rightarrow> 's vec \<Rightarrow> 's vec \<Rightarrow> 'm
     \<Rightarrow> ('e + ('s, 'm) state) option" where
  "bicgstabl c L fuel x b monitor =
     (case init c L x b monitor of
        Inl e \<Rightarrow> Some (Inl e)
      | Inr st0 \<Rightarrow>
          (case while_loop c L b fuel st0 of
             None \<Rightarrow> None
           | Some (Inl e) \<Rightarrow> Some (Inl e)
           | Some (Inr st1) \<Rightarrow> Some (finalize c b st1)))"

definition bicgstab1 ::
  "('s::{linorder, zero, minus, uminus, inverse, abs, numeral, power}, 'e, 'm) collab \<Rightarrow> nat \<Rightarrow> 's vec \<Rightarrow> 's vec \<Rightarrow> 'm
     \<Rightarrow> ('e + ('s, 'm) state) option" where
  "bicgstab1 c fuel x b monitor = bicgstabl c 1 fuel x b monitor"

definition bicgstab2 ::
  "('s::{linorder, zero, minus, uminus, inverse, abs, numeral, power}, 'e, 'm) collab \<Rightarrow> nat \<Rightarrow> 's vec \<Rightarrow> 's vec \<Rightarrow> 'm
     \<Rightarrow> ('e + ('s, 'm) state) option" where
  "bicgstab2 c fuel x b monitor = bicgstabl c 2 fuel x b monitor"

section \<open>Notions of the specification\<close>

text \<open>The residual of an internal iterate \<open>v\<close> from its definition, b - A (P v), and
  its norm (specification, sections 3 and 4.1). \<^verbatim>\<open>cusp::multiply(P, v, y)\<close> is the
  application the specification writes \<open>P\<^sup>-\<^sup>1 v\<close>.\<close>

definition true_residual ::
  "('s::{linorder, zero, minus, uminus, inverse, abs, numeral, power}, 'e, 'm) collab \<Rightarrow> 's vec \<Rightarrow> 's vec \<Rightarrow> 'e + 's vec" where
  "true_residual c b v =
     bind_exn (multiply_P c v) (\<lambda>Pv.
     bind_exn (multiply_A c Pv) (\<lambda>APv.
     axpby c b APv 1 (- 1)))"


text \<open>The stagnation test of the minimal-residual sub-phase as the specification words
  it: the test of the BiCG sub-phase (lines 139-143) with gamma(1) in place of alpha.\<close>

definition stag_mr_as_stated ::
  "('s::{linorder, zero, minus, uminus, inverse, abs, numeral, power}, 'e, 'm) collab \<Rightarrow> ('s, 'm) state \<Rightarrow> 'e + ('s, 'm) state" where
  "stag_mr_as_stated c st =
     bind_exn (nrm2 c (uu st 0)) (\<lambda>nu.
     bind_exn (nrm2 c (xx st)) (\<lambda>nx.
     bind_exn (if \<bar>gamma st 1\<bar> * nu < eps * nx
               then incrementStag c (mon st) else resetStag c (mon st)) (\<lambda>m.
     Inr (st\<lparr>mon := m\<rparr>))))"


text \<open>The exceptions that a call of the operator, of the preconditioner or of a vector
  primitive can throw.\<close>

definition raised :: "('s, 'e, 'm) collab \<Rightarrow> 'e set" where
  "raised c =
     {e. (\<exists>v. multiply_A c v = Inl e) \<or> (\<exists>v. multiply_P c v = Inl e) \<or>
         (\<exists>x y a b. axpby c x y a b = Inl e) \<or> (\<exists>x y a. axpy c x y a = Inl e) \<or>
         (\<exists>v. copy c v = Inl e) \<or> (\<exists>x y. dotc c x y = Inl e) \<or>
         (\<exists>v. nrm2 c v = Inl e) \<or> (\<exists>u x r. zip_copy c u x r = Inl e)}"

text \<open>A step is quiet when it does not raise \<open>r_norm_min\<close> and leaves \<open>rho0\<close> and
  \<open>rho1\<close> alone.\<close>

definition quiet :: "('s::{linorder, zero, minus, uminus, inverse, abs, numeral, power}, 'm) state \<Rightarrow> ('s, 'm) state \<Rightarrow> bool" where
  "quiet st st' \<longleftrightarrow>
     r_norm_min st' \<le> r_norm_min st \<and> rho0 st' = rho0 st \<and> rho1 st' = rho1 st"

section \<open>Exact collaborators for concrete runs\<close>

text \<open>
  Modelled from the spec: the vector primitives (cusp/blas), the operator, the
  preconditioner and the monitor (sap/monitor.h) are not among the source files. For
  concrete runs the primitives are the exact ones of section 4.4 on real vectors, the
  operator and the preconditioner are dense matrices (lists of rows), and the monitor
  follows the contract of section 4.2: it counts the work, asks for a recomputation when
  the cheap norm is within the tolerance, ends with code 0 when the exact norm is within
  the tolerance and with code -1 when the work exceeds the budget, and treats every
  \<^verbatim>\<open>stop\<close> as final.
\<close>

definition dot_exact :: "real vec \<Rightarrow> real vec \<Rightarrow> real" where
  "dot_exact x y = sum_list (map2 (\<lambda>a b. a * b) x y)"

definition nrm2_exact :: "real vec \<Rightarrow> real" where
  "nrm2_exact x = sqrt (dot_exact x x)"

definition axpby_exact :: "real vec \<Rightarrow> real vec \<Rightarrow> real \<Rightarrow> real \<Rightarrow> real vec" where
  "axpby_exact x y a b = map2 (\<lambda>xi yi. a * xi + b * yi) x y"

definition axpy_exact :: "real vec \<Rightarrow> real vec \<Rightarrow> real \<Rightarrow> real vec" where
  "axpy_exact x y a = map2 (\<lambda>xi yi. yi + a * xi) x y"

definition mat_vec :: "real list list \<Rightarrow> real vec \<Rightarrow> real vec" where
  "mat_vec M v = map (\<lambda>row. dot_exact row v) M"

record test_monitor =
  m_iterations :: rat
  m_stag :: nat
  m_code :: "int option"
  m_message :: string
  m_rNorm :: real

definition fresh_monitor :: test_monitor where
  "fresh_monitor =
     \<lparr> m_iterations = 0, m_stag = 0, m_code = None, m_message = [], m_rNorm = 0 \<rparr>"

definition test_finished_norm :: "real \<Rightarrow> rat \<Rightarrow> real \<Rightarrow> test_monitor \<Rightarrow> bool \<times> test_monitor" where
  "test_finished_norm tol budget rn m =
     (if rn \<le> tol then (True, m\<lparr>m_rNorm := rn, m_code := Some 0, m_message := ''converged''\<rparr>)
      else if budget < m_iterations m
      then (True, m\<lparr>m_rNorm := rn, m_code := Some (- 1), m_message := ''maximum work''\<rparr>)
      else (False, m\<lparr>m_rNorm := rn\<rparr>))"

definition test_collab ::
  "real list list \<Rightarrow> real list list \<Rightarrow> real \<Rightarrow> rat \<Rightarrow> (real, system_error, test_monitor) collab" where
  "test_collab A P tol budget =
     \<lparr> multiply_A = (\<lambda>v. Inr (mat_vec A v)),
       multiply_P = (\<lambda>v. Inr (mat_vec P v)),
       axpby = (\<lambda>x y a b. Inr (axpby_exact x y a b)),
       axpy = (\<lambda>x y a. Inr (axpy_exact x y a)),
       copy = (\<lambda>v. Inr v),
       dotc = (\<lambda>x y. Inr (dot_exact x y)),
       nrm2 = (\<lambda>v. Inr (nrm2_exact v)),
       zip_copy = (\<lambda>u x r. Inr (u, x, r)),
       allocate = (\<lambda>n. Inr ()),
       allocate_arrays = (\<lambda>k. Inr ()),
       increment = (\<lambda>w m. Inr (m\<lparr>m_iterations := m_iterations m + w\<rparr>)),
       needCheckConvergence = (\<lambda>rn m. Inr (rn \<le> tol, m)),
       finished_norm = (\<lambda>rn m. Inr (test_finished_norm tol budget rn m)),
       finished = (\<lambda>m. Inr (m_code m \<noteq> None, m)),
       stop = (\<lambda>code msg m. Inr (m\<lparr>m_code := Some code, m_message := msg\<rparr>)),
       incrementStag = (\<lambda>m. Inr (m\<lparr>m_stag := m_stag m + 1\<rparr>)),
       resetStag = (\<lambda>m. Inr (m\<lparr>m_stag := 0\<rparr>)),
       converged = (\<lambda>m. Inr (m_code m = Some 0, m)),
       updateResidual = (\<lambda>rn m. Inr (m\<lparr>m_rNorm := rn\<rparr>)) \<rparr>"

section \<open>Concrete runs\<close>

text \<open>One unknown: A = (2), P = (1), b = (2), x0 = (0). With the tolerance 1/1000 the
  run converges in the first lookahead step; with the tolerance -1 the monitor is never
  satisfied and never asks for a recomputation.\<close>

definition demo_c :: "(real, system_error, test_monitor) collab" where
  "demo_c = test_collab [[2]] [[1]] (1 / 1000) 10"

definition stall_c :: "(real, system_error, test_monitor) collab" where
  "stall_c = test_collab [[2]] [[1]] (- 1) 10"

definition demo_st0 :: "(real, test_monitor) state" where
  "demo_st0 =
     \<lparr> rho0 = 1, alpha = 0, omega = 1, rho1 = 0, r0 = [2], r_vec = [2], u_vec = [0],
       xx = [0], Pv = [0], rr = (\<lambda>k. [0])(0 := [2]), uu = (\<lambda>k. [0])(0 := [0]),
       tao = (\<lambda>i j. 0), gamma = (\<lambda>j. 0), gamma_prime = (\<lambda>j. 0),
       gamma_primeprime = (\<lambda>j. 0), sigma = (\<lambda>j. 0),
       r_norm_min = 2, r_norm = 2, r_norm_act = 2, x_min = [0], x_vec = [0],
       mon = fresh_monitor \<rparr>"

text \<open>The state in which the outer loop is left, for the two tolerances.\<close>

definition demo_exit :: "(real, test_monitor) state" where
  "demo_exit =
     \<lparr> rho0 = 4, alpha = 1 / 2, omega = 1, rho1 = 4, r0 = [2], r_vec = [2], u_vec = [0],
       xx = [1], Pv = [0], rr = (\<lambda>k. [0])(0 := [0], 1 := [0]),
       uu = (\<lambda>k. [0])(0 := [2], 1 := [4]),
       tao = (\<lambda>i j. 0), gamma = (\<lambda>j. 0), gamma_prime = (\<lambda>j. 0),
       gamma_primeprime = (\<lambda>j. 0), sigma = (\<lambda>j. 0),
       r_norm_min = 2, r_norm = 0, r_norm_act = 0, x_min = [0], x_vec = [0],
       mon = \<lparr> m_iterations = 1 / 4, m_stag = 0, m_code = Some 0,
               m_message = ''converged'', m_rNorm = 0 \<rparr> \<rparr>"

definition stall_exit :: "(real, test_monitor) state" where
  "stall_exit =
     \<lparr> rho0 = 4, alpha = 1 / 2, omega = 1, rho1 = 4, r0 = [2], r_vec = [2], u_vec = [0],
       xx = [1], Pv = [0], rr = (\<lambda>k. [0])(0 := [0], 1 := [0]),
       uu = (\<lambda>k. [0])(0 := [2], 1 := [4]),
       tao = (\<lambda>i j. 0), gamma = (\<lambda>j. 0), gamma_prime = (\<lambda>j. 0),
       gamma_primeprime = (\<lambda>j. 0), sigma = (\<lambda>j. 0)(1 := 0),
       r_norm_min = 0, r_norm = 0, r_norm_act = 0, x_min = [1], x_vec = [0],
       mon = \<lparr> m_iterations = 1 / 4, m_stag = 0, m_code = Some (- 12),
               m_message = ''a sigma value is zero'', m_rNorm = 0 \<rparr> \<rparr>"

text \<open>The state of the second run after its first lookahead step (line 173).\<close>

definition stall_st1 :: "(real, test_monitor) state" where
  "stall_st1 =
     stall_exit\<lparr> sigma := (\<lambda>j. 0),
       mon := \<lparr> m_iterations = 1 / 4, m_stag = 0, m_code = None, m_message = [],
                m_rNorm = 0 \<rparr> \<rparr>"

text \<open>The same system with a preconditioner that throws.\<close>

definition throwing_c :: "(real, system_error, test_monitor) collab" where
  "throwing_c =
     demo_c\<lparr>multiply_P := (\<lambda>v. Inl (System_error Illegal_solve ''solve before setup''))\<rparr>"

text \<open>Two unknowns, a singular operator, the preconditioner 2 I and a nonzero start:
  A = ((1, 0), (3/8, 0)), b = (2, 3/8), x0 = (1, 0), tolerance 1/4. \<open>drift_st0\<close> is the
  state after the initialisation, \<open>drift_st1\<close> the state after the first lookahead
  step, \<open>drift_final\<close> the state at the return.\<close>

definition drift_c :: "(real, system_error, test_monitor) collab" where
  "drift_c = test_collab [[1, 0], [3 / 8, 0]] [[2, 0], [0, 2]] (1 / 4) 10"

definition drift_st0 :: "(real, test_monitor) state" where
  "drift_st0 =
     \<lparr> rho0 = 1, alpha = 0, omega = 1, rho1 = 0, r0 = [1, 0], r_vec = [1, 0],
       u_vec = [0, 0], xx = [1, 0], Pv = [0, 0],
       rr = (\<lambda>k. [0, 0])(0 := [1, 0]), uu = (\<lambda>k. [0, 0])(0 := [0, 0]),
       tao = (\<lambda>i j. 0), gamma = (\<lambda>j. 0), gamma_prime = (\<lambda>j. 0),
       gamma_primeprime = (\<lambda>j. 0), sigma = (\<lambda>j. 0),
       r_norm_min = 1, r_norm = 1, r_norm_act = 1, x_min = [0, 0], x_vec = [1, 0],
       mon = fresh_monitor \<rparr>"

definition drift_st1 :: "(real, test_monitor) state" where
  "drift_st1 =
     \<lparr> rho0 = 1, alpha = 1 / 2, omega = 1, rho1 = 1, r0 = [1, 0], r_vec = [1, 0],
       u_vec = [0, 0], xx = [3 / 2, 0], Pv = [0, - (3 / 4)],
       rr = (\<lambda>k. [0, 0])(0 := [0, - (3 / 8)], 1 := [0, 0]),
       uu = (\<lambda>k. [0, 0])(0 := [1, 0], 1 := [2, 3 / 4]),
       tao = (\<lambda>i j. 0), gamma = (\<lambda>j. 0), gamma_prime = (\<lambda>j. 0),
       gamma_primeprime = (\<lambda>j. 0), sigma = (\<lambda>j. 0),
       r_norm_min = 3 / 8, r_norm = 3 / 8, r_norm_act = 3 / 8,
       x_min = [3 / 2, 0], x_vec = [1, 0],
       mon = \<lparr> m_iterations = 1 / 4, m_stag = 0, m_code = None, m_message = [],
               m_rNorm = 0 \<rparr> \<rparr>"

definition drift_final :: "(real, test_monitor) state" where
  "drift_final =
     drift_st1\<lparr> sigma := (\<lambda>j. 0)(1 := 0), x_vec := [3, 0],
       mon := \<lparr> m_iterations = 1 / 4, m_stag = 0, m_code = Some (- 12),
                m_message = ''a sigma value is zero'', m_rNorm = 5 / 4 \<rparr> \<rparr>"

text \<open>Two unknowns, A = ((1, 0), (10^-21, 1)), P = I, b = (1, 0), x0 = (0, 0), tolerance
  10^-30. \<open>stag_st0\<close> is the state after the initialisation, \<open>stag_st\<close> the state of
  the first outer iteration after the coefficients of the minimal-residual sub-phase
  (line 210).\<close>

definition stag_c :: "(real, system_error, test_monitor) collab" where
  "stag_c = test_collab [[1, 0], [1 / 10 ^ 21, 1]] [[1, 0], [0, 1]] (1 / 10 ^ 30) 10"

definition stag_st0 :: "(real, test_monitor) state" where
  "stag_st0 =
     \<lparr> rho0 = 1, alpha = 0, omega = 1, rho1 = 0, r0 = [1, 0], r_vec = [1, 0],
       u_vec = [0, 0], xx = [0, 0], Pv = [0, 0],
       rr = (\<lambda>k. [0, 0])(0 := [1, 0]), uu = (\<lambda>k. [0, 0])(0 := [0, 0]),
       tao = (\<lambda>i j. 0), gamma = (\<lambda>j. 0), gamma_prime = (\<lambda>j. 0),
       gamma_primeprime = (\<lambda>j. 0), sigma = (\<lambda>j. 0),
       r_norm_min = 1, r_norm = 1, r_norm_act = 1, x_min = [0, 0], x_vec = [0, 0],
       mon = fresh_monitor \<rparr>"

definition stag_st :: "(real, test_monitor) state" where
  "stag_st =
     \<lparr> rho0 = 1, alpha = 1, omega = 1, rho1 = 1, r0 = [1, 0], r_vec = [1, 0],
       u_vec = [0, 0], xx = [1, 0], Pv = [0, - (1 / 10 ^ 21)],
       rr = (\<lambda>k. [0, 0])(0 := [0, - (1 / 10 ^ 21)], 1 := [0, - (1 / 10 ^ 21)]),
       uu = (\<lambda>k. [0, 0])(0 := [1, 0], 1 := [1, 1 / 10 ^ 21]),
       tao = (\<lambda>i j. 0), gamma = (\<lambda>j. 0)(1 := 1), gamma_prime = (\<lambda>j. 0)(1 := 1),
       gamma_primeprime = (\<lambda>j. 0), sigma = (\<lambda>j. 0)(1 := 1 / 10 ^ 42),
       r_norm_min = 1 / 10 ^ 21, r_norm = 1 / 10 ^ 21, r_norm_act = 1 / 10 ^ 21,
       x_min = [1, 0], x_vec = [0, 0],
       mon = \<lparr> m_iterations = 1 / 4, m_stag = 0, m_code = None, m_message = [],
               m_rNorm = 0 \<rparr> \<rparr>"

text \<open>One unknown, started at the solution: A = (1), b = (1), x0 = (1), with the
  preconditioners (1) and (2). \<open>exact_st0\<close> is the state after the initialisation,
  \<open>exact_final\<close> the state at the return for P = (1) and L = 1, \<open>exact_final_P2\<close> for
  P = (2) and L = 2.\<close>

definition exact_c :: "(real, system_error, test_monitor) collab" where
  "exact_c = test_collab [[1]] [[1]] (1 / 1000) 10"

definition exact_c_P2 :: "(real, system_error, test_monitor) collab" where
  "exact_c_P2 = test_collab [[1]] [[2]] (1 / 1000) 10"

definition exact_st0 :: "(real, test_monitor) state" where
  "exact_st0 =
     \<lparr> rho0 = 1, alpha = 0, omega = 1, rho1 = 0, r0 = [0], r_vec = [0], u_vec = [0],
       xx = [1], Pv = [0], rr = (\<lambda>k. [0])(0 := [0]), uu = (\<lambda>k. [0])(0 := [0]),
       tao = (\<lambda>i j. 0), gamma = (\<lambda>j. 0), gamma_prime = (\<lambda>j. 0),
       gamma_primeprime = (\<lambda>j. 0), sigma = (\<lambda>j. 0),
       r_norm_min = 0, r_norm = 0, r_norm_act = 0, x_min = [0], x_vec = [1],
       mon = fresh_monitor \<rparr>"

definition exact_final :: "(real, test_monitor) state" where
  "exact_final =
     \<lparr> rho0 = 0, alpha = 0, omega = 1, rho1 = 0, r0 = [0], r_vec = [0], u_vec = [0],
       xx = [1], Pv = [0], rr = (\<lambda>k. [0])(0 := [0]), uu = (\<lambda>k. [0])(0 := [0], 1 := [0]),
       tao = (\<lambda>i j. 0), gamma = (\<lambda>j. 0), gamma_prime = (\<lambda>j. 0),
       gamma_primeprime = (\<lambda>j. 0), sigma = (\<lambda>j. 0),
       r_norm_min = 0, r_norm = 0, r_norm_act = 0, x_min = [0], x_vec = [1],
       mon = \<lparr> m_iterations = 1 / 4, m_stag = 0, m_code = Some (- 11),
               m_message = ''gamma is zero'', m_rNorm = 0 \<rparr> \<rparr>"

definition exact_final_P2 :: "(real, test_monitor) state" where
  "exact_final_P2 =
     exact_final\<lparr> x_vec := [0],
       mon := \<lparr> m_iterations = 1 / 4, m_stag = 0, m_code = Some (- 11),
                m_message = ''gamma is zero'', m_rNorm = 1 \<rparr> \<rparr>"

text \<open>The states of these runs after lines 93-95 of the first outer iteration.\<close>

definition demo_begun :: "(real, test_monitor) state" where
  "demo_begun = demo_st0\<lparr>rho0 := - 1, mon := fresh_monitor\<lparr>m_iterations := 1 / 4\<rparr>\<rparr>"

definition drift_begun :: "(real, test_monitor) state" where
  "drift_begun = drift_st0\<lparr>rho0 := - 1, mon := fresh_monitor\<lparr>m_iterations := 1 / 4\<rparr>\<rparr>"

definition exact_begun :: "(real, test_monitor) state" where
  "exact_begun = exact_st0\<lparr>rho0 := - 1, mon := fresh_monitor\<lparr>m_iterations := 1 / 4\<rparr>\<rparr>"

text \<open>The system of \<open>exact_c\<close> with a monitor whose \<^verbatim>\<open>finished()\<close> always answers
  false. \<open>deaf_st1\<close> and \<open>deaf_st2\<close> are the states of the first outer iteration after
  the BiCG sub-phase (line 178) and after the orthogonalisation (line 195),
  \<open>deaf_final\<close> the state at the return.\<close>

definition deaf_c :: "(real, system_error, test_monitor) collab" where
  "deaf_c = exact_c\<lparr>finished := (\<lambda>m. Inr (False, m))\<rparr>"

definition deaf_st1 :: "(real, test_monitor) state" where
  "deaf_st1 =
     exact_st0\<lparr> rho0 := 0, uu := (uu exact_st0)(1 := [0]),
       mon := \<lparr> m_iterations = 1 / 4, m_stag = 0, m_code = Some (- 11),
                m_message = ''gamma is zero'', m_rNorm = 0 \<rparr> \<rparr>"

definition deaf_st2 :: "(real, test_monitor) state" where
  "deaf_st2 =
     deaf_st1\<lparr> sigma := (\<lambda>j. 0)(1 := 0),
       mon := \<lparr> m_iterations = 1 / 4, m_stag = 0, m_code = Some (- 12),
                m_message = ''a sigma value is zero'', m_rNorm = 0 \<rparr> \<rparr>"

definition deaf_final :: "(real, test_monitor) state" where
  "deaf_final =
     deaf_st2\<lparr> omega := 0, gamma := (\<lambda>j. 0)(1 := 0),
       mon := \<lparr> m_iterations = 1 / 2, m_stag = 1, m_code = Some 0,
                m_message = ''converged'', m_rNorm = 0 \<rparr> \<rparr>"

text \<open>The state in which the run of \<open>stag_c\<close> leaves the outer loop (line 242).\<close>

definition stag_exit :: "(real, test_monitor) state" where
  "stag_exit =
     stag_st\<lparr> xx := [1, - (1 / 10 ^ 21)], rr := (rr stag_st)(0 := [0, 0]),
       uu := (uu stag_st)(0 := [0, - (1 / 10 ^ 21)]), r_norm := 0, r_norm_act := 0,
       mon := \<lparr> m_iterations = 1 / 2, m_stag = 1, m_code = Some 0,
                m_message = ''converged'', m_rNorm = 0 \<rparr> \<rparr>"

section \<open>Sequencing, loops and frames\<close>

lemma bind_exn_Inr [simp]: "bind_exn (Inr a) f = f a" by (simp add: bind_exn_def)
lemma bind_exn_Inl [simp]: "bind_exn (Inl e) f = Inl e" by (simp add: bind_exn_def)

lemma bind_exn_eq_Inr: "bind_exn m f = Inr y \<longleftrightarrow> (\<exists>a. m = Inr a \<and> f a = Inr y)"
  by (cases m) simp_all

lemma bind_exn_InrE:
  assumes "bind_exn m f = Inr y"
  obtains a where "m = Inr a" and "f a = Inr y"
  using assms by (cases m) simp_all

lemma unless_break_simps [simp]:
  "unless_break (Inl e) f = Inl e"
  "unless_break (Inr (True, st)) f = Inr (True, st)"
  "unless_break (Inr (False, st)) f = f st"
  by (simp_all add: unless_break_def)

lemma unless_break_InrE:
  assumes "unless_break r f = Inr p"
  obtains st where "r = Inr (True, st)" and "p = (True, st)"
  | st where "r = Inr (False, st)" and "f st = Inr p"
  using assms by (auto simp: unless_break_def split: sum.splits if_splits)

lemma quiet_refl [simp]: "quiet st st" by (simp add: quiet_def)
lemma quiet_trans: "quiet a b \<Longrightarrow> quiet b c \<Longrightarrow> quiet a c" by (auto simp: quiet_def)

lemma for_each_rel:
  assumes step: "\<And>j s s'. body j s = Inr s' \<Longrightarrow> R s s'"
    and refl: "\<And>s. R s s" and trans: "\<And>a b c. R a b \<Longrightarrow> R b c \<Longrightarrow> R a c"
    and run: "for_each body js st = Inr st'"
  shows "R st st'"
  using run
proof (induction js arbitrary: st)
  case Nil
  then show ?case by (simp add: refl)
next
  case (Cons j js)
  from Cons.prems obtain s1 where a: "body j st = Inr s1" and b: "for_each body js s1 = Inr st'"
    by (auto simp: bind_exn_eq_Inr)
  from step[OF a] Cons.IH[OF b] show ?case by (rule trans)
qed

lemma for_break_rel:
  assumes step: "\<And>j s brk s'. body j s = Inr (brk, s') \<Longrightarrow> R s s'"
    and refl: "\<And>s. R s s" and trans: "\<And>a b c. R a b \<Longrightarrow> R b c \<Longrightarrow> R a c"
    and run: "for_break body js st = Inr st'"
  shows "R st st'"
  using run
proof (induction js arbitrary: st)
  case Nil
  then show ?case by (simp add: refl)
next
  case (Cons j js)
  show ?case
  proof (cases "body j st")
    case (Inl e)
    with Cons.prems show ?thesis by simp
  next
    case (Inr p)
    obtain brk s1 where p: "p = (brk, s1)" by (cases p)
    have r1: "R st s1" using step Inr p by blast
    show ?thesis
    proof (cases brk)
      case True
      with Cons.prems Inr p have "st' = s1" by simp
      with r1 show ?thesis by simp
    next
      case False
      with Cons.prems Inr p have "for_break body js s1 = Inr st'" by simp
      from r1 Cons.IH[OF this] show ?thesis by (rule trans)
    qed
  qed
qed

lemma fold_rel:
  assumes step: "\<And>j s. R s (f j s)"
    and refl: "\<And>s. R s s" and trans: "\<And>a b c. R a b \<Longrightarrow> R b c \<Longrightarrow> R a c"
  shows "R st (fold f js st)"
proof (induction js arbitrary: st)
  case Nil
  show ?case by (simp add: refl)
next
  case (Cons j js)
  have "R st (f j st)" by (rule step)
  moreover have "R (f j st) (fold f js (f j st))" by (rule Cons.IH)
  ultimately show ?case by (simp add: trans)
qed

lemma for_each_quiet:
  assumes "\<And>j s s'. body j s = Inr s' \<Longrightarrow> quiet s s'" and "for_each body js st = Inr st'"
  shows "quiet st st'"
  by (rule for_each_rel[of body quiet, OF assms(1) quiet_refl quiet_trans assms(2)])

lemma for_break_quiet:
  assumes "\<And>j s brk s'. body j s = Inr (brk, s') \<Longrightarrow> quiet s s'" and "for_break body js st = Inr st'"
  shows "quiet st st'"
  by (rule for_break_rel[of body quiet, OF assms(1) quiet_refl quiet_trans assms(2)])

lemma fold_quiet:
  assumes "\<And>j s. quiet s (f j s)"
  shows "quiet st (fold f js st)"
  by (rule fold_rel[of quiet f, OF assms quiet_refl quiet_trans])

lemma ask_finished_quiet: "ask_finished c st = Inr (f, st') \<Longrightarrow> quiet st st'"
  by (auto simp: ask_finished_def quiet_def elim!: bind_exn_InrE split: prod.splits)

section \<open>What the phases leave alone\<close>

lemma bicg_uu_update_quiet: "bicg_uu_update c beta i st = Inr st' \<Longrightarrow> quiet st st'"
  by (auto simp: bicg_uu_update_def quiet_def elim!: bind_exn_InrE)

lemma bicg_rr_update_quiet: "bicg_rr_update c i st = Inr st' \<Longrightarrow> quiet st st'"
  by (auto simp: bicg_rr_update_def quiet_def elim!: bind_exn_InrE)

lemma uu_loop_quiet: "for_each (bicg_uu_update c beta) js st = Inr st' \<Longrightarrow> quiet st st'"
  by (erule for_each_quiet[rotated]) (erule bicg_uu_update_quiet)

lemma rr_loop_quiet: "for_each (bicg_rr_update c) js st = Inr st' \<Longrightarrow> quiet st st'"
  by (erule for_each_quiet[rotated]) (erule bicg_rr_update_quiet)

lemma bicg_direction_frame:
  "bicg_direction c j st = Inr st' \<Longrightarrow>
   r_norm_min st' \<le> r_norm_min st \<and> rho0 st' = rho1 st \<and> rho1 st' = rho1 st"
  by (auto simp: bicg_direction_def Let_def quiet_def elim!: bind_exn_InrE dest!: uu_loop_quiet)

lemma bicg_residual_quiet: "bicg_residual c j gam st = Inr st' \<Longrightarrow> quiet st st'"
  by (auto simp: bicg_residual_def Let_def quiet_def elim!: bind_exn_InrE dest!: rr_loop_quiet)

lemma stag_bicg_quiet: "stag_bicg c st = Inr st' \<Longrightarrow> quiet st st'"
  by (auto simp: stag_bicg_def quiet_def elim!: bind_exn_InrE split: if_splits)

lemma checkpoint_bicg_quiet: "checkpoint_bicg c b st = Inr (fin, st') \<Longrightarrow> quiet st st'"
  by (auto simp: checkpoint_bicg_def Let_def quiet_def elim!: bind_exn_InrE
      split: if_splits prod.splits)

lemma update_min_bicg_quiet: "update_min_bicg c st = Inr st' \<Longrightarrow> quiet st st'"
  by (auto simp: update_min_bicg_def quiet_def elim!: bind_exn_InrE split: if_splits)

lemma bicg_advance_quiet: "bicg_advance c b j gam st = Inr (brk, st') \<Longrightarrow> quiet st st'"
  by (auto simp: bicg_advance_def quiet_def elim!: bind_exn_InrE unless_break_InrE
      dest!: bicg_residual_quiet stag_bicg_quiet checkpoint_bicg_quiet update_min_bicg_quiet
        ask_finished_quiet)


lemma bicg_rest_frame:
  "bicg_rest c b j st = Inr (brk, st') \<Longrightarrow>
   r_norm_min st' \<le> r_norm_min st \<and> rho0 st' = rho1 st \<and> rho1 st' = rho1 st"
  by (auto simp: bicg_rest_def quiet_def elim!: bind_exn_InrE split: if_splits
      dest!: bicg_direction_frame bicg_advance_quiet) (blast intro: order_trans)

lemma bicg_step_frame:
  "bicg_step c b j st = Inr (brk, st') \<Longrightarrow>
   r_norm_min st' \<le> r_norm_min st \<and> dotc c (rr st j) (r0 st) = Inr (rho1 st') \<and>
   (if rho0 st = 0 then rho0 st' = 0 else rho0 st' = rho1 st')"
  by (auto simp: bicg_step_def Let_def elim!: bind_exn_InrE split: if_splits dest!: bicg_rest_frame)

lemma bicg_loop_r_norm_min:
  "for_break (bicg_step c b) js st = Inr st' \<Longrightarrow> r_norm_min st' \<le> r_norm_min st"
  by (erule for_break_rel[where R = "\<lambda>s s'. r_norm_min s' \<le> r_norm_min s", rotated 3])
     (auto dest: bicg_step_frame)

lemma bicg_phase_r_norm_min:
  "bicg_phase c L b st = Inr (ex, st') \<Longrightarrow> r_norm_min st' \<le> r_norm_min st"
  by (auto simp: bicg_phase_def begin_outer_def quiet_def elim!: bind_exn_InrE
      dest!: bicg_loop_r_norm_min ask_finished_quiet)

lemma mgs_inner_quiet: "mgs_inner c j i st = Inr st' \<Longrightarrow> quiet st st'"
  by (auto simp: mgs_inner_def Let_def quiet_def elim!: bind_exn_InrE)

lemma mgs_inner_loop_quiet: "for_each (mgs_inner c j) js st = Inr st' \<Longrightarrow> quiet st st'"
  by (erule for_each_quiet[rotated]) (erule mgs_inner_quiet)

lemma mgs_step_quiet: "mgs_step c j st = Inr (brk, st') \<Longrightarrow> quiet st st'"
  by (auto simp: mgs_step_def Let_def quiet_def elim!: bind_exn_InrE split: if_splits
      dest!: mgs_inner_loop_quiet)

lemma mgs_loop_quiet: "for_break (mgs_step c) js st = Inr st' \<Longrightarrow> quiet st st'"
  by (erule for_break_quiet[rotated]) (erule mgs_step_quiet)

lemma mgs_phase_quiet: "mgs_phase c L st = Inr (ex, st') \<Longrightarrow> quiet st st'"
  by (auto simp: mgs_phase_def quiet_def elim!: bind_exn_InrE dest!: mgs_loop_quiet ask_finished_quiet)

lemma gamma_back_quiet: "quiet st (gamma_back L j st)"
  unfolding gamma_back_def
  by (rule quiet_trans[OF _ fold_quiet]) (simp_all add: quiet_def)

lemma gamma_forward_quiet: "quiet st (gamma_forward L j st)"
  unfolding gamma_forward_def
  by (rule quiet_trans[OF _ fold_quiet]) (simp_all add: quiet_def)

lemma mr_coefficients_quiet: "quiet st (mr_coefficients L st)"
  unfolding mr_coefficients_def Let_def
  by (rule quiet_trans[OF quiet_trans[OF _ fold_quiet] fold_quiet])
     (simp_all add: quiet_def gamma_back_quiet[unfolded quiet_def] gamma_forward_quiet[unfolded quiet_def])

lemma stag_mr_quiet: "stag_mr c st = Inr st' \<Longrightarrow> quiet st st'"
  by (auto simp: stag_mr_def quiet_def elim!: bind_exn_InrE split: if_splits)

lemma mr_combine_quiet: "mr_combine c L st = Inr st' \<Longrightarrow> quiet st st'"
  by (auto simp: mr_combine_def Let_def quiet_def elim!: bind_exn_InrE)

lemma checkpoint_mr_quiet: "checkpoint_mr c b st = Inr (fin, st') \<Longrightarrow> quiet st st'"
  by (auto simp: checkpoint_mr_def Let_def quiet_def elim!: bind_exn_InrE
      split: if_splits prod.splits)

lemma update_min_mr_quiet: "update_min_mr c st = Inr st' \<Longrightarrow> quiet st st'"
  by (auto simp: update_min_mr_def quiet_def elim!: bind_exn_InrE split: if_splits)

lemma mr_phase_quiet: "mr_phase c L b st = Inr (ex, st') \<Longrightarrow> quiet st st'"
  using mr_coefficients_quiet[of st L]
  by (auto simp: mr_phase_def quiet_def elim!: bind_exn_InrE unless_break_InrE
      dest!: stag_mr_quiet mr_combine_quiet checkpoint_mr_quiet update_min_mr_quiet
        ask_finished_quiet)

lemma stag_mr_j_quiet: "stag_mr_j c j st = Inr st' \<Longrightarrow> quiet st st'"
  by (auto simp: stag_mr_j_def quiet_def elim!: bind_exn_InrE split: if_splits)

lemma checkpoint_mr_j_quiet: "checkpoint_mr_j c b st = Inr (fin, st') \<Longrightarrow> quiet st st'"
  by (auto simp: checkpoint_mr_j_def Let_def quiet_def elim!: bind_exn_InrE
      split: if_splits prod.splits)

lemma update_min_mr_j_quiet: "update_min_mr_j c st = Inr st' \<Longrightarrow> quiet st st'"
  by (auto simp: update_min_mr_j_def quiet_def elim!: bind_exn_InrE split: if_splits)

lemma mr_step_quiet: "mr_step c b j st = Inr (brk, st') \<Longrightarrow> quiet st st'"
  by (auto simp: mr_step_def Let_def quiet_def elim!: bind_exn_InrE unless_break_InrE
      dest!: stag_mr_j_quiet checkpoint_mr_j_quiet update_min_mr_j_quiet ask_finished_quiet)

lemma mr_loop_quiet: "for_break (mr_step c b) js st = Inr st' \<Longrightarrow> quiet st st'"
  by (erule for_break_quiet[rotated]) (erule mr_step_quiet)

lemma snapshot_phase_quiet: "snapshot_phase c L b st = Inr (ex, st') \<Longrightarrow> quiet st st'"
  by (auto simp: snapshot_phase_def quiet_def elim!: bind_exn_InrE unless_break_InrE
      dest!: mr_loop_quiet ask_finished_quiet split: prod.splits)

lemma outer_body_r_norm_min:
  "outer_body c L b st = Inr (ex, st') \<Longrightarrow> r_norm_min st' \<le> r_norm_min st"
  unfolding outer_body_def
  by (auto elim!: unless_break_InrE
      dest!: bicg_phase_r_norm_min mgs_phase_quiet mr_phase_quiet snapshot_phase_quiet
      simp: quiet_def)

lemma while_loop_r_norm_min:
  "while_loop c L b fuel st = Some (Inr st') \<Longrightarrow> r_norm_min st' \<le> r_norm_min st"
proof (induction fuel arbitrary: st)
  case 0
  then show ?case by simp
next
  case (Suc k)
  show ?case
  proof (cases "outer_body c L b st")
    case (Inl e)
    with Suc.prems show ?thesis by simp
  next
    case (Inr p)
    obtain ex s1 where p: "p = (ex, s1)" by (cases p)
    have le: "r_norm_min s1 \<le> r_norm_min st"
      using Inr p by (auto dest: outer_body_r_norm_min)
    show ?thesis
    proof (cases ex)
      case True
      with Suc.prems Inr p have "st' = s1" by simp
      with le show ?thesis by simp
    next
      case False
      with Suc.prems Inr p have "while_loop c L b k s1 = Some (Inr st')" by simp
      from Suc.IH[OF this] le show ?thesis by simp
    qed
  qed
qed

lemma finalize_r_norm_min: "finalize c b st = Inr st' \<Longrightarrow> r_norm_min st' = r_norm_min st"
  by (auto simp: finalize_def elim!: bind_exn_InrE split: if_splits prod.splits)

section \<open>The best iterate and its norm\<close>

lemma init_fields:
  "init c L x b monitor = Inr st0 \<Longrightarrow>
   rho0 st0 = 1 \<and> alpha st0 = 0 \<and> omega st0 = 1 \<and> mon st0 = monitor \<and>
   copy c (r0 st0) = Inr (r_vec st0) \<and> nrm2 c (r_vec st0) = Inr (r_norm_min st0)"
  by (auto simp: init_def Let_def elim!: bind_exn_InrE split: prod.splits)


























section \<open>Evaluation of the concrete runs\<close>

lemma test_collab_sel [simp]:
  "multiply_A (test_collab A P tol budget) v = Inr (mat_vec A v)"
  "multiply_P (test_collab A P tol budget) v = Inr (mat_vec P v)"
  "axpby (test_collab A P tol budget) x y a b = Inr (axpby_exact x y a b)"
  "axpy (test_collab A P tol budget) x y a = Inr (axpy_exact x y a)"
  "copy (test_collab A P tol budget) v = Inr v"
  "dotc (test_collab A P tol budget) x y = Inr (dot_exact x y)"
  "nrm2 (test_collab A P tol budget) v = Inr (nrm2_exact v)"
  "zip_copy (test_collab A P tol budget) u x r = Inr (u, x, r)"
  "allocate (test_collab A P tol budget) n = Inr ()"
  "allocate_arrays (test_collab A P tol budget) k = Inr ()"
  "increment (test_collab A P tol budget) w m = Inr (m\<lparr>m_iterations := m_iterations m + w\<rparr>)"
  "needCheckConvergence (test_collab A P tol budget) rn m = Inr (rn \<le> tol, m)"
  "finished_norm (test_collab A P tol budget) rn m = Inr (test_finished_norm tol budget rn m)"
  "finished (test_collab A P tol budget) m = Inr (m_code m \<noteq> None, m)"
  "stop (test_collab A P tol budget) code msg m = Inr (m\<lparr>m_code := Some code, m_message := msg\<rparr>)"
  "incrementStag (test_collab A P tol budget) m = Inr (m\<lparr>m_stag := m_stag m + 1\<rparr>)"
  "resetStag (test_collab A P tol budget) m = Inr (m\<lparr>m_stag := 0\<rparr>)"
  "converged (test_collab A P tol budget) m = Inr (m_code m = Some 0, m)"
  "updateResidual (test_collab A P tol budget) rn m = Inr (m\<lparr>m_rNorm := rn\<rparr>)"
  by (simp_all add: test_collab_def)

lemma nrm2_exact_simps [simp]:
  "nrm2_exact [a] = \<bar>a\<bar>"
  "nrm2_exact [a, 0] = \<bar>a\<bar>"
  "nrm2_exact [0, a] = \<bar>a\<bar>"
  by (simp_all add: nrm2_exact_def dot_exact_def)

lemma nrm2_exact_3_4 [simp]: "nrm2_exact [- 1, - (3 / 4)] = 5 / 4"
proof -
  have "nrm2_exact [- 1, - (3 / 4)] = sqrt ((5 / 4)\<^sup>2)"
    by (simp add: nrm2_exact_def dot_exact_def power2_eq_square)
  then show ?thesis by (simp del: real_sqrt_abs add: real_sqrt_abs[of "5/4"])
qed

lemma upt_0_2 [simp]: "[0..<2] = [0, Suc 0]" by (simp add: upt_rec)
lemma upt_1_2 [simp]: "[Suc 0..<2] = [Suc 0]" by (simp add: upt_rec)
lemma upt_1_3 [simp]: "[Suc 0..<3] = [Suc 0, 2]" by (simp add: upt_rec)

lemmas exact_defs = test_finished_norm_def fresh_monitor_def mat_vec_def dot_exact_def
  axpby_exact_def axpy_exact_def Let_def eps_def

lemma for_each_Inr: "for_each (\<lambda>k. Inr) js u = Inr u"
  by (induction js) simp_all

lemma allocate_ok [simp]:
  assumes "\<And>n. allocate c n = Inr ()" and "\<And>k. allocate_arrays c k = Inr ()"
  shows "allocate_pair c n = Inr ()"
    and "allocate_six c n = Inr ()"
    and "allocate_workspace c L n = Inr ()"
  by (simp_all add: allocate_pair_def allocate_six_def allocate_workspace_def assms for_each_Inr)

lemmas model_defs = init_def begin_outer_def bicg_uu_update_def bicg_rr_update_def bicg_direction_def
  bicg_residual_def stag_bicg_def checkpoint_bicg_def update_min_bicg_def bicg_advance_def bicg_rest_def
  bicg_step_def bicg_phase_def mgs_inner_def mgs_step_def mgs_phase_def gamma_back_def gamma_forward_def
  mr_coefficients_def stag_mr_def mr_combine_def checkpoint_mr_def update_min_mr_def mr_phase_def
  stag_mr_j_def checkpoint_mr_j_def update_min_mr_j_def mr_step_def snapshot_phase_def
  outer_body_def finalize_def bicgstabl_def ask_finished_def

lemma stall_init: "init stall_c 1 [0] [2] fresh_monitor = Inr demo_st0"
  by (simp add: stall_c_def demo_st0_def model_defs exact_defs)

lemma stall_loop: "while_loop stall_c 1 [2] 1 demo_st0 = Some (Inr stall_exit)"
  by (simp add: stall_c_def demo_st0_def stall_exit_def model_defs exact_defs)



lemma stag_code: "stag_mr stag_c stag_st = Inr (stag_st\<lparr>mon := (mon stag_st)\<lparr>m_stag := 1\<rparr>\<rparr>)"
  by (simp add: stag_c_def stag_st_def model_defs exact_defs)

lemma stag_spec: "stag_mr_as_stated stag_c stag_st = Inr (stag_st\<lparr>mon := (mon stag_st)\<lparr>m_stag := 0\<rparr>\<rparr>)"
  by (simp add: stag_c_def stag_st_def stag_mr_as_stated_def exact_defs)

lemma exact_run: "bicgstabl exact_c 1 1 [1] [1] fresh_monitor = Some (Inr exact_final)"
  by (simp add: exact_c_def exact_final_def model_defs exact_defs)

lemma exact_run_P2: "bicgstabl exact_c_P2 2 1 [1] [1] fresh_monitor = Some (Inr exact_final_P2)"
  by (simp add: exact_c_P2_def exact_final_def exact_final_P2_def model_defs exact_defs)

lemma throwing_run:
  "bicgstabl throwing_c 1 1 [0] [2] fresh_monitor =
     Some (Inl (System_error Illegal_solve ''solve before setup''))"
  by (simp add: throwing_c_def demo_c_def model_defs exact_defs)

lemmas run_defs = demo_c_def stall_c_def demo_st0_def demo_begun_def exact_begun_def demo_exit_def stall_exit_def stall_st1_def
  exact_c_def exact_st0_def exact_final_def model_defs exact_defs

lemma stall_begin: "begin_outer stall_c demo_st0 = Inr demo_begun"
  by (simp add: run_defs)

lemma stall_step: "bicg_step stall_c [2] 0 demo_begun = Inr (False, stall_st1)"
  by (simp add: run_defs)


lemma stall_mgs_step:
  "mgs_step stall_c 1 stall_st1 = Inr (True, stall_exit)"
  by (simp add: run_defs)


lemma stall_body: "outer_body stall_c 1 [2] demo_st0 = Inr (True, stall_exit)"
  by (simp add: run_defs)

lemma stall_finalize:
  "finalize stall_c [2] stall_exit = Inr (stall_exit\<lparr>x_vec := [1]\<rparr>)"
  by (simp add: run_defs)

lemma stall_run: "bicgstabl stall_c 1 1 [0] [2] fresh_monitor = Some (Inr (stall_exit\<lparr>x_vec := [1]\<rparr>))"
  by (simp add: run_defs)

lemma demo_run: "bicgstabl demo_c 1 1 [0] [2] fresh_monitor = Some (Inr (demo_exit\<lparr>x_vec := [1]\<rparr>))"
  by (simp add: run_defs fun_upd_twist)

lemma exact_init: "init exact_c L [1] [1] fresh_monitor = Inr exact_st0"
  by (simp add: run_defs)

lemma stall_mgs_phase: "mgs_phase stall_c 1 stall_st1 = Inr (True, stall_exit)"
  by (simp add: run_defs)

lemma synth_mr_phase:
  "mr_phase stall_c 1 [2] (demo_st0\<lparr>r_norm_min := 3\<rparr>) =
     Inr (False, demo_st0\<lparr>omega := 0, gamma := (\<lambda>j. 0)(1 := 0), r_norm_min := 2,
                          mon := mon stall_st1\<rparr>)"
  by (simp add: run_defs)

lemma synth_mr_step:
  "mr_step stall_c [2] 1 (demo_st0\<lparr>r_norm_min := 3\<rparr>) =
     Inr (False, demo_st0\<lparr>r_norm_min := 2\<rparr>)"
  by (simp add: run_defs)

lemma synth_snapshot:
  "snapshot_phase stall_c 1 [2] demo_st0 = Inr (False, demo_st0\<lparr>mon := (mon stall_st1)\<lparr>m_iterations := 1 / 2\<rparr>\<rparr>)"
  by (simp add: run_defs)

lemmas run2_defs = drift_c_def drift_st0_def drift_begun_def drift_st1_def drift_final_def stag_c_def stag_st0_def
  stag_st_def exact_c_P2_def exact_final_P2_def




lemma stag_init: "init stag_c 1 [0, 0] [1, 0] fresh_monitor = Inr stag_st0"
  by (simp add: run2_defs run_defs)

lemma stag_bicg_phase:
  "bicg_phase stag_c 1 [1, 0] stag_st0 =
     Inr (False, stag_st\<lparr>gamma := (\<lambda>j. 0), gamma_prime := (\<lambda>j. 0), sigma := (\<lambda>j. 0)\<rparr>)"
  by (simp add: run2_defs run_defs)

lemma stag_mgs_phase:
  "mgs_phase stag_c 1 (stag_st\<lparr>gamma := (\<lambda>j. 0), gamma_prime := (\<lambda>j. 0), sigma := (\<lambda>j. 0)\<rparr>) =
     Inr (False, stag_st\<lparr>gamma := (\<lambda>j. 0)\<rparr>)"
  by (simp add: run2_defs run_defs)

lemma stag_coefficients: "mr_coefficients 1 (stag_st\<lparr>gamma := (\<lambda>j. 0)\<rparr>) = stag_st"
  by (simp add: run2_defs run_defs)

lemma synth_update:
  "update_min_bicg stall_c (demo_st0\<lparr>r_norm_act := 1\<rparr>) =
     Inr (demo_st0\<lparr>r_norm_act := 1, r_norm_min := 1\<rparr>)"
  "update_min_mr stall_c (demo_st0\<lparr>r_norm_act := 1\<rparr>) =
     Inr (demo_st0\<lparr>r_norm_act := 1, r_norm_min := 1\<rparr>)"
  "update_min_mr_j stall_c (demo_st0\<lparr>r_norm_act := 1\<rparr>) =
     Inr (demo_st0\<lparr>r_norm_act := 1, r_norm_min := 1\<rparr>)"
  by (simp_all add: run_defs)



lemmas deaf_defs = deaf_c_def deaf_st1_def deaf_st2_def deaf_final_def

lemma deaf_bicg_phase: "bicg_phase deaf_c 1 [1] exact_st0 = Inr (False, deaf_st1)"
  by (simp add: deaf_defs run_defs)

lemma deaf_mgs_phase: "mgs_phase deaf_c 1 deaf_st1 = Inr (False, deaf_st2)"
  by (simp add: deaf_defs run_defs)


lemma stag_mr_phase: "mr_phase stag_c 1 [1, 0] (stag_st\<lparr>gamma := (\<lambda>j. 0)\<rparr>) = Inr (True, stag_exit)"
  by (simp add: stag_exit_def run2_defs run_defs fun_upd_twist)

section \<open>C1: the best iterate and its residual norm\<close>




section \<open>C2: the returned iterate\<close>

text \<open>
  Claim C2. On return from \<^verbatim>\<open>bicgstabl\<close>: if the monitor reports convergence then
  \<^verbatim>\<open>x\<close> holds P xx (the preconditioner applied to \<^verbatim>\<open>xx\<close>). Otherwise the residuals of
  \<^verbatim>\<open>xx\<close> and of \<^verbatim>\<open>x_min\<close> are recomputed, each with one application of the
  preconditioner and one of the operator, \<^verbatim>\<open>x\<close> becomes the preconditioned iterate whose
  residual norm is strictly smaller (P x_min when they are equal), and that norm goes to
  \<^verbatim>\<open>monitor.updateResidual\<close>. Every return of the call is the result of this step, so
  \<^verbatim>\<open>x\<close> is written on every return.
\<close>

theorem returned_iterate:
  "(converged c (mon st) = Inr (True, m) \<and> multiply_P c (xx st) = Inr Pxx \<longrightarrow>
      finalize c b st = Inr (st\<lparr>x_vec := Pxx, mon := m\<rparr>)) \<and>
   (converged c (mon st) = Inr (False, m) \<and> allocate_six c (length b) = Inr () \<and>
    multiply_P c (xx st) = Inr Pxx \<and> multiply_A c Pxx = Inr APxx \<and>
    axpby c b APxx 1 (- 1) = Inr r_comp \<and> nrm2 c r_comp = Inr n1 \<and>
    multiply_P c (x_min st) = Inr Pxmin \<and> multiply_A c Pxmin = Inr APxmin \<and>
    axpby c b APxmin 1 (- 1) = Inr r_comp_min \<and> nrm2 c r_comp_min = Inr n2 \<and>
    copy c (if n1 < n2 then Pxx else Pxmin) = Inr xv \<and>
    updateResidual c (min n1 n2) m = Inr m' \<longrightarrow>
      finalize c b st = Inr (st\<lparr>x_vec := xv, mon := m'\<rparr>)) \<and>
   (bicgstabl c L fuel x b monitor = Some (Inr st') \<longrightarrow>
      (\<exists>st0 st1. init c L x b monitor = Inr st0 \<and> while_loop c L b fuel st0 = Some (Inr st1) \<and>
         finalize c b st1 = Inr st'))"
  by (auto simp: finalize_def bicgstabl_def min_def split: sum.splits option.splits)

text \<open>The converged run of \<open>demo_c\<close> and the run of \<open>stall_c\<close>, which ends on a
  breakdown.\<close>

theorem returned_iterate_witness:
  "finalize demo_c [2] demo_exit = Inr (demo_exit\<lparr>x_vec := [1], mon := mon demo_exit\<rparr>) \<and>
   finalize stall_c [2] stall_exit = Inr (stall_exit\<lparr>x_vec := [1], mon := mon stall_exit\<rparr>) \<and>
   bicgstabl demo_c 1 1 [0] [2] fresh_monitor = Some (Inr (demo_exit\<lparr>x_vec := [1]\<rparr>)) \<and>
   (\<exists>st0 st1. init demo_c 1 [0] [2] fresh_monitor = Inr st0 \<and>
      while_loop demo_c 1 [2] 1 st0 = Some (Inr st1) \<and>
      finalize demo_c [2] st1 = Inr (demo_exit\<lparr>x_vec := [1]\<rparr>))"
proof -
  have a: "converged demo_c (mon demo_exit) = Inr (True, mon demo_exit) \<and>
      multiply_P demo_c (xx demo_exit) = Inr [1]"
    by (simp add: run_defs)
  have b: "converged stall_c (mon stall_exit) = Inr (False, mon stall_exit) \<and>
      allocate_six stall_c (length [2::real]) = Inr () \<and>
      multiply_P stall_c (xx stall_exit) = Inr [1] \<and> multiply_A stall_c [1] = Inr [2] \<and>
      axpby stall_c [2] [2] 1 (- 1) = Inr [0] \<and> nrm2 stall_c [0] = Inr 0 \<and>
      multiply_P stall_c (x_min stall_exit) = Inr [1] \<and> multiply_A stall_c [1] = Inr [2] \<and>
      axpby stall_c [2] [2] 1 (- 1) = Inr [0] \<and> nrm2 stall_c [0] = Inr 0 \<and>
      copy stall_c (if (0::real) < 0 then [1] else [1]) = Inr [1] \<and>
      updateResidual stall_c (min 0 0) (mon stall_exit) = Inr (mon stall_exit)"
    by (simp add: run_defs)
  have c: "bicgstabl demo_c 1 1 [0] [2] fresh_monitor = Some (Inr (demo_exit\<lparr>x_vec := [1]\<rparr>))"
    by (rule demo_run)
  note t = returned_iterate
  show ?thesis
    by (intro conjI t [THEN conjunct1, THEN mp, OF a]
        t [THEN conjunct2, THEN conjunct1, THEN mp, OF b] c
        t [THEN conjunct2, THEN conjunct2, THEN mp, OF c])
qed

section \<open>C3: the three breakdowns\<close>




section \<open>C4: the recomputation of the residual\<close>

text \<open>
  Claim C4. The solver has three checkpoints: in every lookahead step of the BiCG
  sub-phase after the update of \<^verbatim>\<open>xx\<close> (lines 148-163), in the minimal-residual sub-phase
  after the combination (lines 229-244), and in every step j = 1..L-1 of its last loop
  (lines 274-289). At each of them, when \<^verbatim>\<open>monitor.needCheckConvergence(r_norm)\<close> answers
  true, the step overwrites \<^verbatim>\<open>rr[0]\<close> with b - A (P xx), sets \<^verbatim>\<open>r_norm_act\<close> to the norm
  of that vector and asks \<^verbatim>\<open>monitor.finished(r_norm_act)\<close>; on the answer true it leaves
  its loop, otherwise it goes on with the update of the best iterate. The three
  checkpoints are the same function of the state.
\<close>

theorem checkpoint_recompute:
  "(rho0 st \<noteq> 0 \<and> dotc c (rr st j) (r0 st) = Inr v \<and>
    bicg_direction c j (st\<lparr>rho1 := v\<rparr>) = Inr st1 \<and>
    dotc c (uu st1 (j + 1)) (r0 st1) = Inr gam \<and> gam \<noteq> 0 \<and>
    bicg_residual c j gam st1 = Inr st2 \<and> stag_bicg c st2 = Inr st3 \<and>
    axpy c (uu st3 0) (xx st3) (alpha st3) = Inr xv \<and>
    needCheckConvergence c (r_norm st3) (mon st3) = Inr (True, m1) \<and>
    allocate_pair c (length b) = Inr () \<and>
    multiply_P c xv = Inr Pxx \<and> multiply_A c Pxx = Inr APxx \<and>
    axpby c b APxx 1 (- 1) = Inr res \<and> nrm2 c res = Inr nr \<and>
    finished_norm c nr m1 = Inr (fin, m2) \<longrightarrow>
      bicg_step c b j st =
        (if fin
         then Inr (True, st3\<lparr>xx := xv, rr := (rr st3)(0 := res), r_norm_act := nr, mon := m2\<rparr>)
         else bind_exn
           (update_min_bicg c
              (st3\<lparr>xx := xv, rr := (rr st3)(0 := res), r_norm_act := nr, mon := m2\<rparr>))
           (ask_finished c))) \<and>
   (stag_mr c (mr_coefficients L st) = Inr st1 \<and> mr_combine c L st1 = Inr st2 \<and>
    needCheckConvergence c (r_norm st2) (mon st2) = Inr (True, m1) \<and>
    allocate_pair c (length b) = Inr () \<and>
    multiply_P c (xx st2) = Inr Pxx \<and> multiply_A c Pxx = Inr APxx \<and>
    axpby c b APxx 1 (- 1) = Inr res \<and> nrm2 c res = Inr nr \<and>
    finished_norm c nr m1 = Inr (fin, m2) \<longrightarrow>
      mr_phase c L b st =
        (if fin
         then Inr (True, st2\<lparr>rr := (rr st2)(0 := res), r_norm_act := nr, mon := m2\<rparr>)
         else bind_exn
           (update_min_mr c (st2\<lparr>rr := (rr st2)(0 := res), r_norm_act := nr, mon := m2\<rparr>))
           (ask_finished c))) \<and>
   (axpy c (uu st j) (uu st 0) (- gamma st j) = Inr uv \<and>
    stag_mr_j c j (st\<lparr>uu := (uu st)(0 := uv)\<rparr>) = Inr st1 \<and>
    axpy c (rr st1 j) (xx st1) (gamma_primeprime st1 j) = Inr xv \<and>
    axpy c (rr st1 j) (rr st1 0) (- gamma_prime st1 j) = Inr rv \<and> nrm2 c rv = Inr nr0 \<and>
    needCheckConvergence c nr0 (mon st1) = Inr (True, m1) \<and>
    allocate_pair c (length b) = Inr () \<and>
    multiply_P c xv = Inr Pxx \<and> multiply_A c Pxx = Inr APxx \<and>
    axpby c b APxx 1 (- 1) = Inr res \<and> nrm2 c res = Inr nr \<and>
    finished_norm c nr m1 = Inr (fin, m2) \<longrightarrow>
      mr_step c b j st =
        (if fin
         then Inr (True, st1\<lparr>xx := xv, r_norm := nr0, rr := (rr st1)(0 := res),
                             r_norm_act := nr, mon := m2\<rparr>)
         else bind_exn
           (update_min_mr_j c
              (st1\<lparr>xx := xv, r_norm := nr0, rr := (rr st1)(0 := res), r_norm_act := nr,
                    mon := m2\<rparr>))
           (ask_finished c))) \<and>
   (begin_outer c st = Inr s0 \<longrightarrow>
      bicg_phase c L b st = bind_exn (for_break (bicg_step c b) [0..<L] s0) (ask_finished c)) \<and>
   (bicg_phase c L b st = Inr (False, s1) \<and> mgs_phase c L s1 = Inr (False, s2) \<longrightarrow>
      outer_body c L b st = unless_break (mr_phase c L b s2) (snapshot_phase c L b)) \<and>
   (increment c (1 / 4) (mon st) = Inr m \<and>
    for_break (mr_step c b) [1..<L] (st\<lparr>mon := m\<rparr>) = Inr st1 \<and>
    finished c (mon st1) = Inr (True, m') \<longrightarrow>
      snapshot_phase c L b st = Inr (True, st1\<lparr>mon := m'\<rparr>)) \<and>
   checkpoint_bicg c b st = checkpoint_mr c b st \<and>
   checkpoint_mr c b st = checkpoint_mr_j c b st"
proof (intro conjI impI)
  assume "rho0 st \<noteq> 0 \<and> dotc c (rr st j) (r0 st) = Inr v \<and>
    bicg_direction c j (st\<lparr>rho1 := v\<rparr>) = Inr st1 \<and>
    dotc c (uu st1 (j + 1)) (r0 st1) = Inr gam \<and> gam \<noteq> 0 \<and>
    bicg_residual c j gam st1 = Inr st2 \<and> stag_bicg c st2 = Inr st3 \<and>
    axpy c (uu st3 0) (xx st3) (alpha st3) = Inr xv \<and>
    needCheckConvergence c (r_norm st3) (mon st3) = Inr (True, m1) \<and>
    allocate_pair c (length b) = Inr () \<and>
    multiply_P c xv = Inr Pxx \<and> multiply_A c Pxx = Inr APxx \<and>
    axpby c b APxx 1 (- 1) = Inr res \<and> nrm2 c res = Inr nr \<and>
    finished_norm c nr m1 = Inr (fin, m2)"
  then show "bicg_step c b j st =
      (if fin
       then Inr (True, st3\<lparr>xx := xv, rr := (rr st3)(0 := res), r_norm_act := nr, mon := m2\<rparr>)
       else bind_exn
         (update_min_bicg c
            (st3\<lparr>xx := xv, rr := (rr st3)(0 := res), r_norm_act := nr, mon := m2\<rparr>))
         (ask_finished c))"
    by (simp add: bicg_step_def bicg_rest_def bicg_advance_def checkpoint_bicg_def)
next
  assume "stag_mr c (mr_coefficients L st) = Inr st1 \<and> mr_combine c L st1 = Inr st2 \<and>
    needCheckConvergence c (r_norm st2) (mon st2) = Inr (True, m1) \<and>
    allocate_pair c (length b) = Inr () \<and>
    multiply_P c (xx st2) = Inr Pxx \<and> multiply_A c Pxx = Inr APxx \<and>
    axpby c b APxx 1 (- 1) = Inr res \<and> nrm2 c res = Inr nr \<and>
    finished_norm c nr m1 = Inr (fin, m2)"
  then show "mr_phase c L b st =
      (if fin
       then Inr (True, st2\<lparr>rr := (rr st2)(0 := res), r_norm_act := nr, mon := m2\<rparr>)
       else bind_exn
         (update_min_mr c (st2\<lparr>rr := (rr st2)(0 := res), r_norm_act := nr, mon := m2\<rparr>))
         (ask_finished c))"
    by (simp add: mr_phase_def checkpoint_mr_def)
next
  assume "axpy c (uu st j) (uu st 0) (- gamma st j) = Inr uv \<and>
    stag_mr_j c j (st\<lparr>uu := (uu st)(0 := uv)\<rparr>) = Inr st1 \<and>
    axpy c (rr st1 j) (xx st1) (gamma_primeprime st1 j) = Inr xv \<and>
    axpy c (rr st1 j) (rr st1 0) (- gamma_prime st1 j) = Inr rv \<and> nrm2 c rv = Inr nr0 \<and>
    needCheckConvergence c nr0 (mon st1) = Inr (True, m1) \<and>
    allocate_pair c (length b) = Inr () \<and>
    multiply_P c xv = Inr Pxx \<and> multiply_A c Pxx = Inr APxx \<and>
    axpby c b APxx 1 (- 1) = Inr res \<and> nrm2 c res = Inr nr \<and>
    finished_norm c nr m1 = Inr (fin, m2)"
  then show "mr_step c b j st =
      (if fin
       then Inr (True, st1\<lparr>xx := xv, r_norm := nr0, rr := (rr st1)(0 := res),
                           r_norm_act := nr, mon := m2\<rparr>)
       else bind_exn
         (update_min_mr_j c
            (st1\<lparr>xx := xv, r_norm := nr0, rr := (rr st1)(0 := res), r_norm_act := nr,
                  mon := m2\<rparr>))
         (ask_finished c))"
    by (simp add: mr_step_def checkpoint_mr_j_def Let_def)
next
  assume "begin_outer c st = Inr s0"
  then show "bicg_phase c L b st =
      bind_exn (for_break (bicg_step c b) [0..<L] s0) (ask_finished c)"
    by (simp add: bicg_phase_def)
next
  assume "bicg_phase c L b st = Inr (False, s1) \<and> mgs_phase c L s1 = Inr (False, s2)"
  then show "outer_body c L b st = unless_break (mr_phase c L b s2) (snapshot_phase c L b)"
    by (simp add: outer_body_def)
next
  assume "increment c (1 / 4) (mon st) = Inr m \<and>
    for_break (mr_step c b) [1..<L] (st\<lparr>mon := m\<rparr>) = Inr st1 \<and>
    finished c (mon st1) = Inr (True, m')"
  then show "snapshot_phase c L b st = Inr (True, st1\<lparr>mon := m'\<rparr>)"
    by (simp add: snapshot_phase_def ask_finished_def)
next
  show "checkpoint_bicg c b st = checkpoint_mr c b st"
    by (simp add: checkpoint_bicg_def checkpoint_mr_def)
next
  show "checkpoint_mr c b st = checkpoint_mr_j c b st"
    by (simp add: checkpoint_mr_def checkpoint_mr_j_def)
qed

text \<open>The lookahead step in which the run of \<open>demo_c\<close> converges, the minimal-residual
  sub-phase of the run of \<open>deaf_c\<close>, and a step of the last loop for L = 2.\<close>

theorem checkpoint_recompute_witness:
  "bicg_step demo_c [2] 0 demo_begun = Inr (True, demo_exit) \<and>
   true_residual demo_c [2] (xx demo_exit) = Inr (rr demo_exit 0) \<and>
   mr_phase deaf_c 1 [1] deaf_st2 = Inr (True, deaf_final) \<and>
   mr_step demo_c [2] 1 (demo_exit\<lparr>mon := mon stall_st1\<rparr>) =
     Inr (True, demo_exit\<lparr>mon := (mon demo_exit)\<lparr>m_stag := 1\<rparr>\<rparr>) \<and>
   bicg_phase demo_c 1 [2] demo_st0 =
     bind_exn (for_break (bicg_step demo_c [2]) [0..<1] demo_begun) (ask_finished demo_c) \<and>
   outer_body deaf_c 1 [1] exact_st0 =
     unless_break (mr_phase deaf_c 1 [1] deaf_st2) (snapshot_phase deaf_c 1 [1]) \<and>
   snapshot_phase demo_c 2 [2] (demo_exit\<lparr>mon := fresh_monitor\<rparr>) =
     Inr (True, demo_exit\<lparr>mon := (mon demo_exit)\<lparr>m_stag := 1\<rparr>\<rparr>)"
proof -
  note t = checkpoint_recompute
  let ?s1 = "demo_begun\<lparr>rho0 := 4, rho1 := 4, Pv := [2], uu := (uu demo_begun)(0 := [2], 1 := [4])\<rparr>"
  let ?s2 = "?s1\<lparr>alpha := 1 / 2, Pv := [0], rr := (rr ?s1)(0 := [0], 1 := [0]),
      r_norm := 0, r_norm_act := 0\<rparr>"
  have h1: "rho0 demo_begun \<noteq> 0 \<and> dotc demo_c (rr demo_begun 0) (r0 demo_begun) = Inr 4 \<and>
      bicg_direction demo_c 0 (demo_begun\<lparr>rho1 := 4\<rparr>) = Inr ?s1 \<and>
      dotc demo_c (uu ?s1 (0 + 1)) (r0 ?s1) = Inr 8 \<and> (8::real) \<noteq> 0 \<and>
      bicg_residual demo_c 0 8 ?s1 = Inr ?s2 \<and> stag_bicg demo_c ?s2 = Inr ?s2 \<and>
      axpy demo_c (uu ?s2 0) (xx ?s2) (alpha ?s2) = Inr [1] \<and>
      needCheckConvergence demo_c (r_norm ?s2) (mon ?s2) = Inr (True, mon ?s2) \<and>
      allocate_pair demo_c (length [2::real]) = Inr () \<and>
      multiply_P demo_c [1] = Inr [1] \<and> multiply_A demo_c [1] = Inr [2] \<and>
      axpby demo_c [2] [2] 1 (- 1) = Inr [0] \<and> nrm2 demo_c [0] = Inr 0 \<and>
      finished_norm demo_c 0 (mon ?s2) = Inr (True, mon demo_exit)"
    by (simp add: run_defs fun_upd_twist)
  have c1: "bicg_step demo_c [2] 0 demo_begun = Inr (True, demo_exit)"
    using t [THEN conjunct1, THEN mp, OF h1] by (simp add: run_defs fun_upd_twist)
  have c1': "true_residual demo_c [2] (xx demo_exit) = Inr (rr demo_exit 0)"
    by (simp add: true_residual_def run_defs)
  let ?m1 = "deaf_st2\<lparr>omega := 0, gamma := (\<lambda>j. 0)(1 := 0), mon := (mon deaf_st2)\<lparr>m_stag := 1\<rparr>\<rparr>"
  let ?m2 = "?m1\<lparr>mon := (mon ?m1)\<lparr>m_iterations := 1 / 2\<rparr>\<rparr>"
  have h2: "stag_mr deaf_c (mr_coefficients 1 deaf_st2) = Inr ?m1 \<and>
      mr_combine deaf_c 1 ?m1 = Inr ?m2 \<and>
      needCheckConvergence deaf_c (r_norm ?m2) (mon ?m2) = Inr (True, mon ?m2) \<and>
      allocate_pair deaf_c (length [1::real]) = Inr () \<and>
      multiply_P deaf_c (xx ?m2) = Inr [1] \<and> multiply_A deaf_c [1] = Inr [1] \<and>
      axpby deaf_c [1] [1] 1 (- 1) = Inr [0] \<and> nrm2 deaf_c [0] = Inr 0 \<and>
      finished_norm deaf_c 0 (mon ?m2) = Inr (True, mon deaf_final)"
    by (simp add: run_defs deaf_defs fun_upd_twist)
  have c2: "mr_phase deaf_c 1 [1] deaf_st2 = Inr (True, deaf_final)"
    using t [THEN conjunct2, THEN conjunct1, THEN mp, OF h2]
    by (simp add: run_defs deaf_defs fun_upd_twist)
  let ?j0 = "demo_exit\<lparr>mon := mon stall_st1\<rparr>"
  let ?j1 = "demo_exit\<lparr>mon := (mon stall_st1)\<lparr>m_stag := 1\<rparr>\<rparr>"
  have h3: "axpy demo_c (uu ?j0 1) (uu ?j0 0) (- gamma ?j0 1) = Inr [2] \<and>
      stag_mr_j demo_c 1 (?j0\<lparr>uu := (uu ?j0)(0 := [2])\<rparr>) = Inr ?j1 \<and>
      axpy demo_c (rr ?j1 1) (xx ?j1) (gamma_primeprime ?j1 1) = Inr [1] \<and>
      axpy demo_c (rr ?j1 1) (rr ?j1 0) (- gamma_prime ?j1 1) = Inr [0] \<and>
      nrm2 demo_c [0] = Inr 0 \<and>
      needCheckConvergence demo_c 0 (mon ?j1) = Inr (True, mon ?j1) \<and>
      allocate_pair demo_c (length [2::real]) = Inr () \<and>
      multiply_P demo_c [1] = Inr [1] \<and> multiply_A demo_c [1] = Inr [2] \<and>
      axpby demo_c [2] [2] 1 (- 1) = Inr [0] \<and> nrm2 demo_c [0] = Inr 0 \<and>
      finished_norm demo_c 0 (mon ?j1) = Inr (True, (mon demo_exit)\<lparr>m_stag := 1\<rparr>)"
    by (simp add: run_defs fun_upd_twist)
  have c3: "mr_step demo_c [2] 1 ?j0 = Inr (True, demo_exit\<lparr>mon := (mon demo_exit)\<lparr>m_stag := 1\<rparr>\<rparr>)"
    using t [THEN conjunct2, THEN conjunct2, THEN conjunct1, THEN mp, OF h3]
    by (simp add: run_defs fun_upd_twist)
  have h4: "begin_outer demo_c demo_st0 = Inr demo_begun"
    by (simp add: run_defs)
  note c4 = t [THEN conjunct2, THEN conjunct2, THEN conjunct2, THEN conjunct1, THEN mp, OF h4,
      of 1 "[2]"]
  have h5: "bicg_phase deaf_c 1 [1] exact_st0 = Inr (False, deaf_st1) \<and>
      mgs_phase deaf_c 1 deaf_st1 = Inr (False, deaf_st2)"
    using deaf_bicg_phase deaf_mgs_phase by simp
  note c5 = t [THEN conjunct2, THEN conjunct2, THEN conjunct2, THEN conjunct2, THEN conjunct1,
      THEN mp, OF h5]
  let ?p = "demo_exit\<lparr>mon := fresh_monitor\<rparr>"
  have h6: "increment demo_c (1 / 4) (mon ?p) = Inr (mon stall_st1) \<and>
      for_break (mr_step demo_c [2]) [1..<2] (?p\<lparr>mon := mon stall_st1\<rparr>) =
        Inr (demo_exit\<lparr>mon := (mon demo_exit)\<lparr>m_stag := 1\<rparr>\<rparr>) \<and>
      finished demo_c (mon (demo_exit\<lparr>mon := (mon demo_exit)\<lparr>m_stag := 1\<rparr>\<rparr>)) =
        Inr (True, (mon demo_exit)\<lparr>m_stag := 1\<rparr>)"
    using c3 by (simp add: demo_c_def stall_st1_def stall_exit_def demo_exit_def fresh_monitor_def)
  have c6: "snapshot_phase demo_c 2 [2] ?p =
      Inr (True, demo_exit\<lparr>mon := (mon demo_exit)\<lparr>m_stag := 1\<rparr>\<rparr>)"
    using t [THEN conjunct2, THEN conjunct2, THEN conjunct2, THEN conjunct2, THEN conjunct2,
      THEN conjunct1, THEN mp, OF h6] by simp
  from c1 c1' c2 c3 c4 c5 c6 show ?thesis by simp
qed

section \<open>C5: a start at the solution\<close>

text \<open>
  Claim C5 as it is stated fails on the code. With A = (1), b = (1) and x0 = (1) the
  residual is 0 from the start, but the solver does not look at it before the first
  lookahead step: there gamma is 0, and the call ends with
  \<^verbatim>\<open>monitor.stop(-11, "gamma is zero")\<close>; the monitor does not report convergence. With
  the preconditioner (2) and L = 2 the same happens, and the returned \<^verbatim>\<open>x\<close> is (0) with
  the reported norm 1, since \<^verbatim>\<open>xx\<close> starts as x0 and is mapped through P at the return.
\<close>

theorem exact_start_counterexample:
  "multiply_A exact_c [1] = Inr [1] \<and>
   bicgstabl exact_c 1 1 [1] [1] fresh_monitor = Some (Inr exact_final) \<and>
   converged exact_c (mon exact_final) = Inr (False, mon exact_final) \<and>
   m_code (mon exact_final) = Some (- 11) \<and>
   m_message (mon exact_final) = ''gamma is zero'' \<and>
   multiply_A exact_c_P2 [1] = Inr [1] \<and>
   bicgstabl exact_c_P2 2 1 [1] [1] fresh_monitor = Some (Inr exact_final_P2) \<and>
   converged exact_c_P2 (mon exact_final_P2) = Inr (False, mon exact_final_P2) \<and>
   x_vec exact_final_P2 = [0] \<and> m_rNorm (mon exact_final_P2) = 1"
proof -
  have a: "multiply_A exact_c [1] = Inr [1] \<and>
      converged exact_c (mon exact_final) = Inr (False, mon exact_final) \<and>
      m_code (mon exact_final) = Some (- 11) \<and>
      m_message (mon exact_final) = ''gamma is zero'' \<and>
      multiply_A exact_c_P2 [1] = Inr [1] \<and>
      converged exact_c_P2 (mon exact_final_P2) = Inr (False, mon exact_final_P2) \<and>
      x_vec exact_final_P2 = [0] \<and> m_rNorm (mon exact_final_P2) = 1"
    by (simp add: run_defs run2_defs)
  from a exact_run exact_run_P2 show ?thesis by blast
qed

text \<open>
  Claim C5, amended. When the call starts at a solution, so that every inner product with
  the initial residual \<^verbatim>\<open>r0\<close> is 0, then for every degree L \<ge> 1 and every
  preconditioner the call ends in the first lookahead step of the first outer iteration:
  after \<^verbatim>\<open>monitor.increment(0.25)\<close> the solver calls
  \<^verbatim>\<open>monitor.stop(-11, "gamma is zero")\<close>, without having asked the monitor to evaluate
  convergence, and on the answer true of \<^verbatim>\<open>monitor.finished()\<close> it goes on to the
  computation of the returned iterate (claim C2) with \<^verbatim>\<open>xx\<close> = x0. Whether the monitor
  then reports convergence is the monitor's decision after that stop.
\<close>

theorem exact_start_breakdown:
  fixes c :: "('s::linordered_field, 'e, 'm) collab"
  assumes init: "init c L x b monitor = Inr st0"
    and zero: "\<forall>v. dotc c v (r0 st0) = Inr 0"
    and L: "0 < L"
    and dir: "axpby c (rr st0 0) (uu st0 0) 1 0 = Inr w" "multiply_P c w = Inr pw"
      "multiply_A c pw = Inr apw"
    and mon: "increment c (1 / 4) monitor = Inr m1" "stop c (- 11) ''gamma is zero'' m1 = Inr m2"
      "finished c m2 = Inr (True, m')"
  shows "bicgstabl c L (Suc k) x b monitor =
    Some (finalize c b (st0\<lparr>rho0 := 0, rho1 := 0, Pv := pw,
                             uu := (uu st0)(0 := w, 1 := apw), mon := m'\<rparr>))"
proof -
  from init_fields[OF init] have f: "rho0 st0 = 1" "alpha st0 = 0" "omega st0 = 1"
    "mon st0 = monitor" by simp_all
  let ?s = "st0\<lparr>rho0 := - 1, mon := m1\<rparr>"
  have b: "begin_outer c st0 = Inr ?s"
    using f mon(1) by (simp add: begin_outer_def)
  let ?d = "st0\<lparr>rho0 := 0, rho1 := 0, Pv := pw, uu := (uu st0)(0 := w, 1 := apw), mon := m1\<rparr>"
  have d: "bicg_direction c 0 (?s\<lparr>rho1 := 0\<rparr>) = Inr ?d"
    using f dir by (simp add: bicg_direction_def bicg_uu_update_def)
  have step: "bicg_step c b 0 ?s = Inr (True, ?d\<lparr>mon := m2\<rparr>)"
    using zero d mon(2) by (simp add: bicg_step_def bicg_rest_def)
  from L have upt: "[0..<L] = 0 # [Suc 0..<L]" by (simp add: upt_conv_Cons)
  have body: "outer_body c L b st0 = Inr (True, ?d\<lparr>mon := m'\<rparr>)"
    using b step mon(3) by (simp add: outer_body_def bicg_phase_def upt ask_finished_def)
  show ?thesis using init body by (simp add: bicgstabl_def)
qed

text \<open>The run of \<open>exact_c\<close>, for L = 1 and for L = 3.\<close>

theorem exact_start_breakdown_witness:
  "init exact_c 1 [1] [1] fresh_monitor = Inr exact_st0 \<and>
   (\<forall>v. dotc exact_c v (r0 exact_st0) = Inr 0) \<and>
   increment exact_c (1 / 4) fresh_monitor = Inr (mon exact_begun) \<and>
   stop exact_c (- 11) ''gamma is zero'' (mon exact_begun) = Inr (mon exact_final) \<and>
   finished exact_c (mon exact_final) = Inr (True, mon exact_final) \<and>
   bicgstabl exact_c 1 (Suc 0) [1] [1] fresh_monitor =
     Some (finalize exact_c [1]
       (exact_st0\<lparr>rho0 := 0, rho1 := 0, Pv := [0], uu := (uu exact_st0)(0 := [0], 1 := [0]),
          mon := mon exact_final\<rparr>)) \<and>
   bicgstabl exact_c 3 (Suc 5) [1] [1] fresh_monitor =
     Some (finalize exact_c [1]
       (exact_st0\<lparr>rho0 := 0, rho1 := 0, Pv := [0], uu := (uu exact_st0)(0 := [0], 1 := [0]),
          mon := mon exact_final\<rparr>))"
proof -
  have z: "\<forall>v. dotc exact_c v (r0 exact_st0) = Inr 0"
  proof
    fix v :: "real list"
    show "dotc exact_c v (r0 exact_st0) = Inr 0"
      by (cases v) (simp_all add: run_defs)
  qed
  have d: "axpby exact_c (rr exact_st0 0) (uu exact_st0 0) 1 0 = Inr [0]"
    "multiply_P exact_c [0] = Inr [0]" "multiply_A exact_c [0] = Inr [0]"
    by (simp_all add: run_defs)
  have m: "increment exact_c (1 / 4) fresh_monitor = Inr (mon exact_begun)"
    "stop exact_c (- 11) ''gamma is zero'' (mon exact_begun) = Inr (mon exact_final)"
    "finished exact_c (mon exact_final) = Inr (True, mon exact_final)"
    by (simp_all add: run_defs)
  have l1: "(0::nat) < 1" and l3: "(0::nat) < 3" by simp_all
  note w1 = exact_start_breakdown [OF exact_init [of 1] z l1 d m, of 0]
  note w3 = exact_start_breakdown [OF exact_init [of 3] z l3 d m, of 5]
  from exact_init [of 1] z m w1 w3 show ?thesis by blast
qed

section \<open>C6: the best norm never increases\<close>

text \<open>
  Claim C6. \<^verbatim>\<open>r_norm_min\<close> is non-increasing across the whole run of \<^verbatim>\<open>bicgstabl\<close>:
  it starts as the norm of \<^verbatim>\<open>r\<close>, the copy of \<^verbatim>\<open>r0\<close>; each of the three update sites
  replaces it by \<^verbatim>\<open>r_norm_act\<close> exactly when \<^verbatim>\<open>r_norm_act\<close> is strictly smaller; and no
  lookahead step, orthogonalisation step, minimal-residual step, outer iteration, run of the
  outer loop or return increases it.
\<close>

theorem r_norm_min_never_increases:
  "(init c L x b monitor = Inr st0 \<longrightarrow>
      copy c (r0 st0) = Inr (r_vec st0) \<and> nrm2 c (r_vec st0) = Inr (r_norm_min st0)) \<and>
   (update_min_bicg c st = Inr st' \<longrightarrow>
      r_norm_min st' = (if r_norm_act st < r_norm_min st then r_norm_act st else r_norm_min st)) \<and>
   (update_min_mr c st = Inr st' \<longrightarrow>
      r_norm_min st' = (if r_norm_act st < r_norm_min st then r_norm_act st else r_norm_min st)) \<and>
   (update_min_mr_j c st = Inr st' \<longrightarrow>
      r_norm_min st' = (if r_norm_act st < r_norm_min st then r_norm_act st else r_norm_min st)) \<and>
   (bicg_step c b j st = Inr (brk, st') \<longrightarrow> r_norm_min st' \<le> r_norm_min st) \<and>
   (mgs_step c j st = Inr (brk, st') \<longrightarrow> r_norm_min st' \<le> r_norm_min st) \<and>
   (mr_phase c L b st = Inr (brk, st') \<longrightarrow> r_norm_min st' \<le> r_norm_min st) \<and>
   (mr_step c b j st = Inr (brk, st') \<longrightarrow> r_norm_min st' \<le> r_norm_min st) \<and>
   (outer_body c L b st = Inr (brk, st') \<longrightarrow> r_norm_min st' \<le> r_norm_min st) \<and>
   (while_loop c L b fuel st = Some (Inr st') \<longrightarrow> r_norm_min st' \<le> r_norm_min st) \<and>
   (finalize c b st = Inr st' \<longrightarrow> r_norm_min st' = r_norm_min st) \<and>
   (bicgstabl c L fuel x b monitor = Some (Inr st') \<longrightarrow>
      (\<exists>st0. init c L x b monitor = Inr st0 \<and> r_norm_min st' \<le> r_norm_min st0))"
proof (intro conjI impI)
  assume "init c L x b monitor = Inr st0"
  from init_fields[OF this]
  show "copy c (r0 st0) = Inr (r_vec st0)" "nrm2 c (r_vec st0) = Inr (r_norm_min st0)"
    by simp_all
next
  assume "update_min_bicg c st = Inr st'"
  then show "r_norm_min st' =
      (if r_norm_act st < r_norm_min st then r_norm_act st else r_norm_min st)"
    by (auto simp: update_min_bicg_def elim!: bind_exn_InrE split: if_splits)
next
  assume "update_min_mr c st = Inr st'"
  then show "r_norm_min st' =
      (if r_norm_act st < r_norm_min st then r_norm_act st else r_norm_min st)"
    by (auto simp: update_min_mr_def elim!: bind_exn_InrE split: if_splits)
next
  assume "update_min_mr_j c st = Inr st'"
  then show "r_norm_min st' =
      (if r_norm_act st < r_norm_min st then r_norm_act st else r_norm_min st)"
    by (auto simp: update_min_mr_j_def elim!: bind_exn_InrE split: if_splits)
next
  assume "bicg_step c b j st = Inr (brk, st')"
  from bicg_step_frame[OF this] show "r_norm_min st' \<le> r_norm_min st" by simp
next
  assume "mgs_step c j st = Inr (brk, st')"
  from mgs_step_quiet[OF this] show "r_norm_min st' \<le> r_norm_min st" by (simp add: quiet_def)
next
  assume "mr_phase c L b st = Inr (brk, st')"
  from mr_phase_quiet[OF this] show "r_norm_min st' \<le> r_norm_min st" by (simp add: quiet_def)
next
  assume "mr_step c b j st = Inr (brk, st')"
  from mr_step_quiet[OF this] show "r_norm_min st' \<le> r_norm_min st" by (simp add: quiet_def)
next
  assume "outer_body c L b st = Inr (brk, st')"
  then show "r_norm_min st' \<le> r_norm_min st" by (rule outer_body_r_norm_min)
next
  assume "while_loop c L b fuel st = Some (Inr st')"
  then show "r_norm_min st' \<le> r_norm_min st" by (rule while_loop_r_norm_min)
next
  assume "finalize c b st = Inr st'"
  then show "r_norm_min st' = r_norm_min st" by (rule finalize_r_norm_min)
next
  assume "bicgstabl c L fuel x b monitor = Some (Inr st')"
  then obtain st0 st1 where i: "init c L x b monitor = Inr st0"
    and w: "while_loop c L b fuel st0 = Some (Inr st1)" and f: "finalize c b st1 = Inr st'"
    by (auto simp: bicgstabl_def split: sum.splits option.splits)
  from while_loop_r_norm_min[OF w] finalize_r_norm_min[OF f]
  have "r_norm_min st' \<le> r_norm_min st0" by simp
  with i show "\<exists>st0. init c L x b monitor = Inr st0 \<and> r_norm_min st' \<le> r_norm_min st0"
    by blast
qed

text \<open>The run of \<open>stall_c\<close>, and the steps of the minimal-residual sub-phase on states
  with a larger \<open>r_norm_min\<close>.\<close>

theorem r_norm_min_never_increases_witness:
  "init stall_c 1 [0] [2] fresh_monitor = Inr demo_st0 \<and>
   nrm2 stall_c (r_vec demo_st0) = Inr (r_norm_min demo_st0) \<and>
   r_norm_min (demo_st0\<lparr>r_norm_act := 1, r_norm_min := 1\<rparr>) =
     (if r_norm_act (demo_st0\<lparr>r_norm_act := 1\<rparr>) < r_norm_min (demo_st0\<lparr>r_norm_act := 1\<rparr>)
      then r_norm_act (demo_st0\<lparr>r_norm_act := 1\<rparr>) else r_norm_min (demo_st0\<lparr>r_norm_act := 1\<rparr>)) \<and>
   bicg_step stall_c [2] 0 demo_begun = Inr (False, stall_st1) \<and>
   r_norm_min stall_st1 \<le> r_norm_min demo_begun \<and>
   mgs_step stall_c 1 stall_st1 = Inr (True, stall_exit) \<and>
   r_norm_min stall_exit \<le> r_norm_min stall_st1 \<and>
   r_norm_min (demo_st0\<lparr>omega := 0, gamma := (\<lambda>j. 0)(1 := 0), r_norm_min := 2,
                        mon := mon stall_st1\<rparr>) \<le> r_norm_min (demo_st0\<lparr>r_norm_min := 3\<rparr>) \<and>
   r_norm_min (demo_st0\<lparr>r_norm_min := 2\<rparr>) \<le> r_norm_min (demo_st0\<lparr>r_norm_min := 3\<rparr>) \<and>
   outer_body stall_c 1 [2] demo_st0 = Inr (True, stall_exit) \<and>
   while_loop stall_c 1 [2] 1 demo_st0 = Some (Inr stall_exit) \<and>
   r_norm_min stall_exit \<le> r_norm_min demo_st0 \<and>
   finalize stall_c [2] stall_exit = Inr (stall_exit\<lparr>x_vec := [1]\<rparr>) \<and>
   r_norm_min (stall_exit\<lparr>x_vec := [1]\<rparr>) = r_norm_min stall_exit \<and>
   bicgstabl stall_c 1 1 [0] [2] fresh_monitor = Some (Inr (stall_exit\<lparr>x_vec := [1]\<rparr>)) \<and>
   (\<exists>st0. init stall_c 1 [0] [2] fresh_monitor = Inr st0 \<and>
      r_norm_min (stall_exit\<lparr>x_vec := [1]\<rparr>) \<le> r_norm_min st0)"
proof -
  note t = r_norm_min_never_increases
  note c1 = t [THEN conjunct1, THEN mp, OF stall_init, THEN conjunct2]
  note c2 = t [THEN conjunct2, THEN conjunct1, THEN mp, OF synth_update(1)]
  note c3 = t [THEN conjunct2, THEN conjunct2, THEN conjunct1, THEN mp, OF synth_update(2)]
  note c4 = t [THEN conjunct2, THEN conjunct2, THEN conjunct2, THEN conjunct1, THEN mp,
      OF synth_update(3)]
  note c5 = t [THEN conjunct2, THEN conjunct2, THEN conjunct2, THEN conjunct2, THEN conjunct1,
      THEN mp, OF stall_step]
  note c6 = t [THEN conjunct2, THEN conjunct2, THEN conjunct2, THEN conjunct2, THEN conjunct2,
      THEN conjunct1, THEN mp, OF stall_mgs_step]
  note c7 = t [THEN conjunct2, THEN conjunct2, THEN conjunct2, THEN conjunct2, THEN conjunct2,
      THEN conjunct2, THEN conjunct1, THEN mp, OF synth_mr_phase]
  note c8 = t [THEN conjunct2, THEN conjunct2, THEN conjunct2, THEN conjunct2, THEN conjunct2,
      THEN conjunct2, THEN conjunct2, THEN conjunct1, THEN mp, OF synth_mr_step]
  note c9 = t [THEN conjunct2, THEN conjunct2, THEN conjunct2, THEN conjunct2, THEN conjunct2,
      THEN conjunct2, THEN conjunct2, THEN conjunct2, THEN conjunct1, THEN mp, OF stall_body]
  note c10 = t [THEN conjunct2, THEN conjunct2, THEN conjunct2, THEN conjunct2, THEN conjunct2,
      THEN conjunct2, THEN conjunct2, THEN conjunct2, THEN conjunct2, THEN conjunct1, THEN mp,
      OF stall_loop]
  note c11 = t [THEN conjunct2, THEN conjunct2, THEN conjunct2, THEN conjunct2, THEN conjunct2,
      THEN conjunct2, THEN conjunct2, THEN conjunct2, THEN conjunct2, THEN conjunct2,
      THEN conjunct1, THEN mp, OF stall_finalize]
  note c12 = t [THEN conjunct2, THEN conjunct2, THEN conjunct2, THEN conjunct2, THEN conjunct2,
      THEN conjunct2, THEN conjunct2, THEN conjunct2, THEN conjunct2, THEN conjunct2,
      THEN conjunct2, THEN mp, OF stall_run]
  from stall_init c1 c2 c3 c4 c5 c6 c7 c8 c9 c10 c11 c12
    stall_step stall_mgs_step stall_body stall_loop stall_finalize stall_run
  show ?thesis by blast
qed

section \<open>C7: the stagnation tests\<close>

text \<open>
  Claim C7 as it is stated fails on the code: the test of the minimal-residual sub-phase
  is not the inequality of the BiCG sub-phase with gamma(1) in place of alpha, because it
  also takes the norm of \<^verbatim>\<open>rr[0]\<close> in place of the norm of \<^verbatim>\<open>uu[0]\<close>. In the first
  outer iteration of the run of \<open>stag_c\<close>, at line 212, gamma(1) = 1, the norms of
  \<^verbatim>\<open>uu[0]\<close> and \<^verbatim>\<open>xx\<close> are 1 and the norm of \<^verbatim>\<open>rr[0]\<close> is 10^-21: the code calls
  \<^verbatim>\<open>incrementStag\<close>, the inequality of the claim gives \<^verbatim>\<open>resetStag\<close>.
\<close>

theorem stagnation_tests_counterexample:
  "init stag_c 1 [0, 0] [1, 0] fresh_monitor = Inr stag_st0 \<and>
   bicg_phase stag_c 1 [1, 0] stag_st0 =
     Inr (False, stag_st\<lparr>gamma := (\<lambda>j. 0), gamma_prime := (\<lambda>j. 0), sigma := (\<lambda>j. 0)\<rparr>) \<and>
   mgs_phase stag_c 1 (stag_st\<lparr>gamma := (\<lambda>j. 0), gamma_prime := (\<lambda>j. 0), sigma := (\<lambda>j. 0)\<rparr>) =
     Inr (False, stag_st\<lparr>gamma := (\<lambda>j. 0)\<rparr>) \<and>
   mr_coefficients 1 (stag_st\<lparr>gamma := (\<lambda>j. 0)\<rparr>) = stag_st \<and>
   incrementStag stag_c (mon stag_st) = Inr ((mon stag_st)\<lparr>m_stag := 1\<rparr>) \<and>
   resetStag stag_c (mon stag_st) = Inr ((mon stag_st)\<lparr>m_stag := 0\<rparr>) \<and>
   stag_mr stag_c stag_st = Inr (stag_st\<lparr>mon := (mon stag_st)\<lparr>m_stag := 1\<rparr>\<rparr>) \<and>
   stag_mr_as_stated stag_c stag_st = Inr (stag_st\<lparr>mon := (mon stag_st)\<lparr>m_stag := 0\<rparr>\<rparr>) \<and>
   stag_mr stag_c stag_st \<noteq> stag_mr_as_stated stag_c stag_st \<and>
   mr_phase stag_c 1 [1, 0] (stag_st\<lparr>gamma := (\<lambda>j. 0)\<rparr>) = Inr (True, stag_exit) \<and>
   m_stag (mon stag_exit) = 1 \<and>
   nrm2 stag_c (uu stag_st 0) = Inr 1 \<and> nrm2 stag_c (rr stag_st 0) = Inr (1 / 10 ^ 21) \<and>
   nrm2 stag_c (xx stag_st) = Inr 1 \<and> gamma stag_st 1 = 1 \<and>
   \<not> \<bar>gamma stag_st 1\<bar> * 1 < (eps :: real) * 1 \<and>
   \<bar>gamma stag_st 1\<bar> * (1 / 10 ^ 21) < (eps :: real) * 1"
proof -
  have ne: "stag_mr stag_c stag_st \<noteq> stag_mr_as_stated stag_c stag_st"
    by (simp add: stag_code stag_spec) (simp add: run2_defs)
  have ex: "m_stag (mon stag_exit) = 1" by (simp add: stag_exit_def)
  have rest: "incrementStag stag_c (mon stag_st) = Inr ((mon stag_st)\<lparr>m_stag := 1\<rparr>) \<and>
      resetStag stag_c (mon stag_st) = Inr ((mon stag_st)\<lparr>m_stag := 0\<rparr>) \<and>
      nrm2 stag_c (uu stag_st 0) = Inr 1 \<and> nrm2 stag_c (rr stag_st 0) = Inr (1 / 10 ^ 21) \<and>
      nrm2 stag_c (xx stag_st) = Inr 1 \<and> gamma stag_st 1 = 1 \<and>
      \<not> \<bar>gamma stag_st 1\<bar> * 1 < (eps :: real) * 1 \<and>
      \<bar>gamma stag_st 1\<bar> * (1 / 10 ^ 21) < (eps :: real) * 1"
    by (simp add: run2_defs eps_def)
  from stag_init stag_bicg_phase stag_mgs_phase stag_coefficients stag_code stag_spec ne
    stag_mr_phase ex rest
  show ?thesis by blast
qed

text \<open>
  Claim C7, amended. With eps = 1e-20, every lookahead step of the BiCG sub-phase calls
  \<^verbatim>\<open>monitor.incrementStag()\<close> when |alpha| ||uu[0]|| < eps ||xx|| and
  \<^verbatim>\<open>monitor.resetStag()\<close> otherwise, and then adds alpha uu[0] to \<^verbatim>\<open>xx\<close>. The
  minimal-residual sub-phase does the same on |gamma(1)| ||rr[0]|| < eps ||xx|| before it
  adds gamma(1) rr[0] to \<^verbatim>\<open>xx\<close>, and every step j = 1..L-1 of its last loop on
  |gamma''(j)| ||rr[j]|| < eps ||xx|| before it adds gamma''(j) rr[j] to \<^verbatim>\<open>xx\<close>: each
  test takes the coefficient and the norm of the vector that the next update adds to
  \<^verbatim>\<open>xx\<close>.
\<close>

theorem stagnation_tests:
  "(eps :: 's::{linorder, zero, minus, uminus, inverse, abs, numeral, power}) = 1 / 10 ^ 20 \<and>
   (rho0 st \<noteq> 0 \<and> dotc c (rr st j) (r0 st) = Inr v \<and>
    bicg_direction c j (st\<lparr>rho1 := v\<rparr>) = Inr st1 \<and>
    dotc c (uu st1 (j + 1)) (r0 st1) = Inr gam \<and> gam \<noteq> 0 \<and>
    bicg_residual c j gam st1 = Inr st2 \<and>
    nrm2 c (uu st2 0) = Inr nu \<and> nrm2 c (xx st2) = Inr nx \<and>
    (if \<bar>alpha st2\<bar> * nu < (eps :: 's) * nx then incrementStag c (mon st2)
     else resetStag c (mon st2)) = Inr m \<and>
    axpy c (uu st2 0) (xx st2) (alpha st2) = Inr xv \<longrightarrow>
      bicg_step c b j st =
        unless_break (checkpoint_bicg c b (st2\<lparr>mon := m, xx := xv\<rparr>))
          (\<lambda>s. bind_exn (update_min_bicg c s) (ask_finished c))) \<and>
   (mr_coefficients L st = s \<and>
    nrm2 c (rr s 0) = Inr nr \<and> nrm2 c (xx s) = Inr nx \<and>
    (if \<bar>gamma s 1\<bar> * nr < eps * nx then incrementStag c (mon s)
     else resetStag c (mon s)) = Inr m \<and>
    axpy c (rr s 0) (xx s) (gamma s 1) = Inr xv \<and>
    axpy c (rr s L) (rr s 0) (- gamma_prime s L) = Inr rv \<and>
    axpy c (uu s L) (uu s 0) (- gamma s L) = Inr uv \<and>
    nrm2 c rv = Inr nr' \<and> increment c (1 / 4) m = Inr m' \<longrightarrow>
      mr_phase c L b st =
        unless_break
          (checkpoint_mr c b
             (s\<lparr>xx := xv, rr := (rr s)(0 := rv), uu := (uu s)(0 := uv),
                r_norm := nr', r_norm_act := nr', mon := m'\<rparr>))
          (\<lambda>s. bind_exn (update_min_mr c s) (ask_finished c))) \<and>
   (axpy c (uu st j) (uu st 0) (- gamma st j) = Inr uv \<and>
    nrm2 c (rr st j) = Inr nr \<and> nrm2 c (xx st) = Inr nx \<and>
    (if \<bar>gamma_primeprime st j\<bar> * nr < eps * nx then incrementStag c (mon st)
     else resetStag c (mon st)) = Inr m \<and>
    axpy c (rr st j) (xx st) (gamma_primeprime st j) = Inr xv \<and>
    axpy c (rr st j) (rr st 0) (- gamma_prime st j) = Inr rv \<and>
    nrm2 c rv = Inr nr' \<longrightarrow>
      mr_step c b j st =
        unless_break
          (checkpoint_mr_j c b
             (st\<lparr>uu := (uu st)(0 := uv), mon := m, xx := xv, rr := (rr st)(0 := rv),
                 r_norm := nr', r_norm_act := nr'\<rparr>))
          (\<lambda>s. bind_exn (update_min_mr_j c s) (ask_finished c))) \<and>
   (begin_outer c st = Inr s0 \<and> for_break (bicg_step c b) [0..<L] s0 = Inr s1 \<and>
    finished c (mon s1) = Inr (False, m) \<and> mgs_phase c L (s1\<lparr>mon := m\<rparr>) = Inr (False, s2) \<longrightarrow>
      outer_body c L b st = unless_break (mr_phase c L b s2) (snapshot_phase c L b)) \<and>
   (increment c (1 / 4) (mon st) = Inr m \<and>
    for_break (mr_step c b) [1..<L] (st\<lparr>mon := m\<rparr>) = Inr s1 \<and>
    finished c (mon s1) = Inr (True, m') \<longrightarrow>
      snapshot_phase c L b st = Inr (True, s1\<lparr>mon := m'\<rparr>))"
proof (intro conjI impI)
  show "(eps :: 's) = 1 / 10 ^ 20" by (simp add: eps_def)
next
  assume "rho0 st \<noteq> 0 \<and> dotc c (rr st j) (r0 st) = Inr v \<and>
    bicg_direction c j (st\<lparr>rho1 := v\<rparr>) = Inr st1 \<and>
    dotc c (uu st1 (j + 1)) (r0 st1) = Inr gam \<and> gam \<noteq> 0 \<and>
    bicg_residual c j gam st1 = Inr st2 \<and>
    nrm2 c (uu st2 0) = Inr nu \<and> nrm2 c (xx st2) = Inr nx \<and>
    (if \<bar>alpha st2\<bar> * nu < (eps :: 's) * nx then incrementStag c (mon st2)
     else resetStag c (mon st2)) = Inr m \<and>
    axpy c (uu st2 0) (xx st2) (alpha st2) = Inr xv"
  then show "bicg_step c b j st =
      unless_break (checkpoint_bicg c b (st2\<lparr>mon := m, xx := xv\<rparr>))
        (\<lambda>s. bind_exn (update_min_bicg c s) (ask_finished c))"
    by (auto simp: bicg_step_def bicg_rest_def bicg_advance_def stag_bicg_def split: if_splits)
next
  assume "mr_coefficients L st = s \<and>
    nrm2 c (rr s 0) = Inr nr \<and> nrm2 c (xx s) = Inr nx \<and>
    (if \<bar>gamma s 1\<bar> * nr < eps * nx then incrementStag c (mon s)
     else resetStag c (mon s)) = Inr m \<and>
    axpy c (rr s 0) (xx s) (gamma s 1) = Inr xv \<and>
    axpy c (rr s L) (rr s 0) (- gamma_prime s L) = Inr rv \<and>
    axpy c (uu s L) (uu s 0) (- gamma s L) = Inr uv \<and>
    nrm2 c rv = Inr nr' \<and> increment c (1 / 4) m = Inr m'"
  then show "mr_phase c L b st =
      unless_break
        (checkpoint_mr c b
           (s\<lparr>xx := xv, rr := (rr s)(0 := rv), uu := (uu s)(0 := uv),
              r_norm := nr', r_norm_act := nr', mon := m'\<rparr>))
        (\<lambda>s. bind_exn (update_min_mr c s) (ask_finished c))"
    by (auto simp: mr_phase_def stag_mr_def mr_combine_def Let_def split: if_splits)
next
  assume "axpy c (uu st j) (uu st 0) (- gamma st j) = Inr uv \<and>
    nrm2 c (rr st j) = Inr nr \<and> nrm2 c (xx st) = Inr nx \<and>
    (if \<bar>gamma_primeprime st j\<bar> * nr < eps * nx then incrementStag c (mon st)
     else resetStag c (mon st)) = Inr m \<and>
    axpy c (rr st j) (xx st) (gamma_primeprime st j) = Inr xv \<and>
    axpy c (rr st j) (rr st 0) (- gamma_prime st j) = Inr rv \<and>
    nrm2 c rv = Inr nr'"
  then show "mr_step c b j st =
      unless_break
        (checkpoint_mr_j c b
           (st\<lparr>uu := (uu st)(0 := uv), mon := m, xx := xv, rr := (rr st)(0 := rv),
               r_norm := nr', r_norm_act := nr'\<rparr>))
        (\<lambda>s. bind_exn (update_min_mr_j c s) (ask_finished c))"
    by (auto simp: mr_step_def stag_mr_j_def Let_def split: if_splits)
next
  assume "begin_outer c st = Inr s0 \<and> for_break (bicg_step c b) [0..<L] s0 = Inr s1 \<and>
    finished c (mon s1) = Inr (False, m) \<and> mgs_phase c L (s1\<lparr>mon := m\<rparr>) = Inr (False, s2)"
  then show "outer_body c L b st = unless_break (mr_phase c L b s2) (snapshot_phase c L b)"
    by (simp add: outer_body_def bicg_phase_def ask_finished_def)
next
  assume "increment c (1 / 4) (mon st) = Inr m \<and>
    for_break (mr_step c b) [1..<L] (st\<lparr>mon := m\<rparr>) = Inr s1 \<and>
    finished c (mon s1) = Inr (True, m')"
  then show "snapshot_phase c L b st = Inr (True, s1\<lparr>mon := m'\<rparr>)"
    by (simp add: snapshot_phase_def ask_finished_def)
qed

text \<open>The lookahead step of the run of \<open>stall_c\<close>, the minimal-residual sub-phase of the
  run of \<open>stag_c\<close> (where the test counts a stagnation), and a step of the last loop for
  L = 2.\<close>

theorem stagnation_tests_witness:
  "(eps :: real) = 1 / 10 ^ 20 \<and>
   bicg_step stall_c [2] 0 demo_begun = Inr (False, stall_st1) \<and>
   mr_phase stag_c 1 [1, 0] (stag_st\<lparr>gamma := (\<lambda>j. 0)\<rparr>) = Inr (True, stag_exit) \<and>
   mr_step stall_c [2] 1 (demo_st0\<lparr>r_norm_min := 3\<rparr>) = Inr (False, demo_st0\<lparr>r_norm_min := 2\<rparr>) \<and>
   outer_body deaf_c 1 [1] exact_st0 =
     unless_break (mr_phase deaf_c 1 [1] deaf_st2) (snapshot_phase deaf_c 1 [1]) \<and>
   snapshot_phase stall_c 2 [2] (demo_st0\<lparr>r_norm_min := 3, mon := mon stall_exit\<rparr>) =
     Inr (True, demo_st0\<lparr>r_norm_min := 2, mon := (mon stall_exit)\<lparr>m_iterations := 1 / 2\<rparr>\<rparr>)"
proof -
  note t = stagnation_tests [where 's = real]
  let ?s1 = "demo_begun\<lparr>rho0 := 4, rho1 := 4, Pv := [2], uu := (uu demo_begun)(0 := [2], 1 := [4])\<rparr>"
  let ?s2 = "?s1\<lparr>alpha := 1 / 2, Pv := [0], rr := (rr ?s1)(0 := [0], 1 := [0]),
      r_norm := 0, r_norm_act := 0\<rparr>"
  have h1: "rho0 demo_begun \<noteq> 0 \<and> dotc stall_c (rr demo_begun 0) (r0 demo_begun) = Inr 4 \<and>
      bicg_direction stall_c 0 (demo_begun\<lparr>rho1 := 4\<rparr>) = Inr ?s1 \<and>
      dotc stall_c (uu ?s1 (0 + 1)) (r0 ?s1) = Inr 8 \<and> (8::real) \<noteq> 0 \<and>
      bicg_residual stall_c 0 8 ?s1 = Inr ?s2 \<and>
      nrm2 stall_c (uu ?s2 0) = Inr 2 \<and> nrm2 stall_c (xx ?s2) = Inr 0 \<and>
      (if \<bar>alpha ?s2\<bar> * 2 < (eps :: real) * 0 then incrementStag stall_c (mon ?s2)
       else resetStag stall_c (mon ?s2)) = Inr (mon ?s2) \<and>
      axpy stall_c (uu ?s2 0) (xx ?s2) (alpha ?s2) = Inr [1]"
    by (simp add: run_defs fun_upd_twist)
  have c1: "bicg_step stall_c [2] 0 demo_begun = Inr (False, stall_st1)"
    using t [THEN conjunct2, THEN conjunct1, THEN mp, OF h1] by (simp add: run_defs fun_upd_twist)
  have h2: "mr_coefficients 1 (stag_st\<lparr>gamma := (\<lambda>j. 0)\<rparr>) = stag_st \<and>
      nrm2 stag_c (rr stag_st 0) = Inr (1 / 10 ^ 21) \<and> nrm2 stag_c (xx stag_st) = Inr 1 \<and>
      (if \<bar>gamma stag_st 1\<bar> * (1 / 10 ^ 21) < (eps :: real) * 1
       then incrementStag stag_c (mon stag_st) else resetStag stag_c (mon stag_st)) =
        Inr ((mon stag_st)\<lparr>m_stag := 1\<rparr>) \<and>
      axpy stag_c (rr stag_st 0) (xx stag_st) (gamma stag_st 1) = Inr [1, - (1 / 10 ^ 21)] \<and>
      axpy stag_c (rr stag_st 1) (rr stag_st 0) (- gamma_prime stag_st 1) = Inr [0, 0] \<and>
      axpy stag_c (uu stag_st 1) (uu stag_st 0) (- gamma stag_st 1) = Inr [0, - (1 / 10 ^ 21)] \<and>
      nrm2 stag_c [0, 0] = Inr 0 \<and>
      increment stag_c (1 / 4) ((mon stag_st)\<lparr>m_stag := 1\<rparr>) =
        Inr ((mon stag_st)\<lparr>m_iterations := 1 / 2, m_stag := 1\<rparr>)"
    using stag_coefficients by (simp add: run2_defs run_defs)
  have c2: "mr_phase stag_c 1 [1, 0] (stag_st\<lparr>gamma := (\<lambda>j. 0)\<rparr>) = Inr (True, stag_exit)"
    using t [THEN conjunct2, THEN conjunct2, THEN conjunct1, THEN mp, OF h2]
    by (simp add: stag_exit_def run2_defs run_defs fun_upd_twist)
  let ?j = "demo_st0\<lparr>r_norm_min := 3\<rparr>"
  have h3: "axpy stall_c (uu ?j 1) (uu ?j 0) (- gamma ?j 1) = Inr [0] \<and>
      nrm2 stall_c (rr ?j 1) = Inr 0 \<and> nrm2 stall_c (xx ?j) = Inr 0 \<and>
      (if \<bar>gamma_primeprime ?j 1\<bar> * 0 < (eps :: real) * 0 then incrementStag stall_c (mon ?j)
       else resetStag stall_c (mon ?j)) = Inr (mon ?j) \<and>
      axpy stall_c (rr ?j 1) (xx ?j) (gamma_primeprime ?j 1) = Inr [0] \<and>
      axpy stall_c (rr ?j 1) (rr ?j 0) (- gamma_prime ?j 1) = Inr [2] \<and>
      nrm2 stall_c [2] = Inr 2"
    by (simp add: run_defs)
  have c3: "mr_step stall_c [2] 1 ?j = Inr (False, demo_st0\<lparr>r_norm_min := 2\<rparr>)"
    using t [THEN conjunct2, THEN conjunct2, THEN conjunct2, THEN conjunct1, THEN mp, OF h3]
    by (simp add: run_defs fun_upd_twist)
  have h4: "begin_outer deaf_c exact_st0 = Inr exact_begun \<and>
      for_break (bicg_step deaf_c [1]) [0..<1] exact_begun = Inr deaf_st1 \<and>
      finished deaf_c (mon deaf_st1) = Inr (False, mon deaf_st1) \<and>
      mgs_phase deaf_c 1 (deaf_st1\<lparr>mon := mon deaf_st1\<rparr>) = Inr (False, deaf_st2)"
    using deaf_mgs_phase by (simp add: run_defs deaf_defs)
  note c4 = t [THEN conjunct2, THEN conjunct2, THEN conjunct2, THEN conjunct2, THEN conjunct1,
      THEN mp, OF h4]
  let ?p = "demo_st0\<lparr>r_norm_min := 3, mon := mon stall_exit\<rparr>"
  let ?q = "demo_st0\<lparr>r_norm_min := 2, mon := (mon stall_exit)\<lparr>m_iterations := 1 / 2\<rparr>\<rparr>"
  have h5: "increment stall_c (1 / 4) (mon ?p) = Inr ((mon stall_exit)\<lparr>m_iterations := 1 / 2\<rparr>) \<and>
      for_break (mr_step stall_c [2]) [1..<2]
        (?p\<lparr>mon := (mon stall_exit)\<lparr>m_iterations := 1 / 2\<rparr>\<rparr>) = Inr ?q \<and>
      finished stall_c (mon ?q) = Inr (True, mon ?q)"
    by (simp add: run_defs)
  have c5: "snapshot_phase stall_c 2 [2] ?p = Inr (True, ?q)"
    using t [THEN conjunct2, THEN conjunct2, THEN conjunct2, THEN conjunct2, THEN conjunct2,
      THEN mp, OF h5] by simp
  from t [THEN conjunct1] c1 c2 c3 c4 c5 show ?thesis by simp
qed

section \<open>C9: the instance for L = 1\<close>

text \<open>
  Claim C9. For all inputs, \<^verbatim>\<open>bicgstab1(A, x, b, monitor, P)\<close> gives the result of
  \<^verbatim>\<open>bicgstabl\<close> instantiated with L = 1 on the same inputs: the same final \<^verbatim>\<open>x\<close>, the
  same monitor, the same exception, the same loop that has not ended.
\<close>

theorem bicgstab1_is_bicgstabl_1:
  "bicgstab1 c fuel x b monitor = bicgstabl c 1 fuel x b monitor"
  by (simp add: bicgstab1_def)


end
